theory Spec2Isabelle
  imports Main
begin

section \<open>Python strings\<close>

text \<open>
  A Python \<open>str\<close> is a sequence of Unicode code points: \<open>len\<close> counts code points and
  \<open>str.isdigit\<close>, \<open>str.strip\<close> and the \<open>\d\<close> of \<open>re\<close> classify code points. A string is
  therefore a list of code points, each a natural number; \<open>lit\<close> turns an ASCII literal
  of the source into one.
\<close>

type_synonym pystr = "nat list"

definition lit :: "string \<Rightarrow> pystr" where
  "lit s = map of_char s"

definition in_ranges :: "nat \<Rightarrow> (nat \<times> nat) list \<Rightarrow> bool" where
  "in_ranges c rs = list_ex (\<lambda>(lo, hi). lo \<le> c \<and> c \<le> hi) rs"

text \<open>
  The code points \<open>c\<close> with \<open>chr(c).isdigit()\<close>: Numeric_Type Digit or Decimal, as
  inclusive ranges (Unicode 14.0, the database of CPython 3.11).
\<close>

definition digit_ranges :: "(nat \<times> nat) list" where
  "digit_ranges =
    [(48, 57), (178, 179), (185, 185), (1632, 1641), (1776, 1785), (1984, 1993),
     (2406, 2415), (2534, 2543), (2662, 2671), (2790, 2799), (2918, 2927), (3046, 3055),
     (3174, 3183), (3302, 3311), (3430, 3439), (3558, 3567), (3664, 3673), (3792, 3801),
     (3872, 3881), (4160, 4169), (4240, 4249), (4969, 4977), (6112, 6121), (6160, 6169),
     (6470, 6479), (6608, 6618), (6784, 6793), (6800, 6809), (6992, 7001), (7088, 7097),
     (7232, 7241), (7248, 7257), (8304, 8304), (8308, 8313), (8320, 8329), (9312, 9320),
     (9332, 9340), (9352, 9360), (9450, 9450), (9461, 9469), (9471, 9471), (10102, 10110),
     (10112, 10120), (10122, 10130), (42528, 42537), (43216, 43225), (43264, 43273),
     (43472, 43481), (43504, 43513), (43600, 43609), (44016, 44025), (65296, 65305),
     (66720, 66729), (68160, 68163), (68912, 68921), (69216, 69224), (69714, 69722),
     (69734, 69743), (69872, 69881), (69942, 69951), (70096, 70105), (70384, 70393),
     (70736, 70745), (70864, 70873), (71248, 71257), (71360, 71369), (71472, 71481),
     (71904, 71913), (72016, 72025), (72784, 72793), (73040, 73049), (73120, 73129),
     (92768, 92777), (92864, 92873), (93008, 93017), (120782, 120831), (123200, 123209),
     (123632, 123641), (125264, 125273), (127232, 127242), (130032, 130041)]"

text \<open>
  The code points of general category Nd, which \<open>\d\<close> matches in a \<open>str\<close> pattern and
  \<open>int\<close> reads. Every range is a run of the digits 0 to 9 (the last but four holds five
  such runs), so the value of a digit is its offset in the range modulo 10.
\<close>

definition decimal_ranges :: "(nat \<times> nat) list" where
  "decimal_ranges =
    [(48, 57), (1632, 1641), (1776, 1785), (1984, 1993), (2406, 2415), (2534, 2543),
     (2662, 2671), (2790, 2799), (2918, 2927), (3046, 3055), (3174, 3183), (3302, 3311),
     (3430, 3439), (3558, 3567), (3664, 3673), (3792, 3801), (3872, 3881), (4160, 4169),
     (4240, 4249), (6112, 6121), (6160, 6169), (6470, 6479), (6608, 6617), (6784, 6793),
     (6800, 6809), (6992, 7001), (7088, 7097), (7232, 7241), (7248, 7257), (42528, 42537),
     (43216, 43225), (43264, 43273), (43472, 43481), (43504, 43513), (43600, 43609),
     (44016, 44025), (65296, 65305), (66720, 66729), (68912, 68921), (69734, 69743),
     (69872, 69881), (69942, 69951), (70096, 70105), (70384, 70393), (70736, 70745),
     (70864, 70873), (71248, 71257), (71360, 71369), (71472, 71481), (71904, 71913),
     (72016, 72025), (72784, 72793), (73040, 73049), (73120, 73129), (92768, 92777),
     (92864, 92873), (93008, 93017), (120782, 120831), (123200, 123209), (123632, 123641),
     (125264, 125273), (130032, 130041)]"

text \<open>The code points \<open>c\<close> with \<open>chr(c).isspace()\<close>, which \<open>str.strip()\<close> removes.\<close>

definition space_ranges :: "(nat \<times> nat) list" where
  "space_ranges =
    [(9, 13), (28, 32), (133, 133), (160, 160), (5760, 5760), (8192, 8202), (8232, 8233),
     (8239, 8239), (8287, 8287), (12288, 12288)]"

definition isdigit_char :: "nat \<Rightarrow> bool" where
  "isdigit_char c = in_ranges c digit_ranges"

definition isdecimal_char :: "nat \<Rightarrow> bool" where
  "isdecimal_char c = in_ranges c decimal_ranges"

definition isspace_char :: "nat \<Rightarrow> bool" where
  "isspace_char c = in_ranges c space_ranges"

definition ascii_digit :: "nat \<Rightarrow> bool" where
  "ascii_digit c = (48 \<le> c \<and> c \<le> 57)"

text \<open>\<open>str.isdigit()\<close>: every character is a digit and there is at least one character.\<close>

definition isdigit :: "pystr \<Rightarrow> bool" where
  "isdigit s = (s \<noteq> [] \<and> list_all isdigit_char s)"

text \<open>\<open>str.strip()\<close>: leading and trailing whitespace removed.\<close>

definition strip :: "pystr \<Rightarrow> pystr" where
  "strip s = rev (dropWhile isspace_char (rev (dropWhile isspace_char s)))"

text \<open>\<open>str(n)\<close> for a non-negative integer: its decimal digits, no padding.\<close>

fun str_nat :: "nat \<Rightarrow> pystr" where
  "str_nat n = (if n < 10 then [48 + n] else str_nat (n div 10) @ [48 + n mod 10])"

declare str_nat.simps [simp del]

section \<open>Exceptions\<close>

text \<open>
  The exception classes that occur. \<open>ValueError\<close> carries its message, which
  \<open>input_error\<close> returns to the user. \<open>PermissionError\<close>, \<open>EOFError\<close> and
  \<open>UnpicklingError\<close> are what \<open>open\<close> and \<open>pickle.load\<close> raise most often beside
  \<open>FileNotFoundError\<close>; \<open>OtherError\<close> is an exception of any further class, by the
  name of the class.
\<close>

datatype exn =
    ValueError pystr
  | KeyError
  | IndexError
  | OverflowError
  | FileNotFoundError
  | PermissionError
  | EOFError
  | UnpicklingError
  | OtherError pystr

section \<open>Fields\<close>

text \<open>\<open>Name.__init__\<close>: the value is stripped; an empty result raises.\<close>

definition Name :: "pystr \<Rightarrow> exn + pystr" where
  "Name v = (let v' = strip v in
     if v' = [] then Inl (ValueError (lit ''Name cannot be empty.'')) else Inr v')"

text \<open>\<open>Phone.__init__\<close>: \<open>if not value.isdigit() or len(value) != 10: raise ValueError\<close>.\<close>

fun Phone :: "pystr \<Rightarrow> exn + pystr" where
  "Phone v = (if \<not> isdigit v \<or> length v \<noteq> 10
     then Inl (ValueError (lit ''Phone must contain 10 digits.'')) else Inr v)"

section \<open>Calendar dates\<close>

text \<open>
  \<open>datetime.date\<close>: a year in 1..9999, a month and a day of that month. The constructor
  checks the three fields and raises \<open>ValueError\<close>; comparison is that of the triples
  (year, month, day).
\<close>

datatype date = Date (year: nat) (month: nat) (day: nat)

fun is_leap :: "nat \<Rightarrow> bool" where
  "is_leap y = (y mod 4 = 0 \<and> (y mod 100 \<noteq> 0 \<or> y mod 400 = 0))"

definition DAYS_IN_MONTH :: "nat list" where
  "DAYS_IN_MONTH = [31, 28, 31, 30, 31, 30, 31, 31, 30, 31, 30, 31]"

definition days_in_month :: "nat \<Rightarrow> nat \<Rightarrow> nat" where
  "days_in_month y m = (if m = 2 \<and> is_leap y then 29 else DAYS_IN_MONTH ! (m - 1))"

definition date_new :: "nat \<Rightarrow> nat \<Rightarrow> nat \<Rightarrow> exn + date" where
  "date_new y m d =
     (if \<not> (1 \<le> y \<and> y \<le> 9999)
        then Inl (ValueError (lit ''year '' @ str_nat y @ lit '' is out of range''))
      else if \<not> (1 \<le> m \<and> m \<le> 12)
        then Inl (ValueError (lit ''month must be in 1..12''))
      else if \<not> (1 \<le> d \<and> d \<le> days_in_month y m)
        then Inl (ValueError (lit ''day is out of range for month''))
      else Inr (Date y m d))"

definition date_lt :: "date \<Rightarrow> date \<Rightarrow> bool" where
  "date_lt a b =
     (year a < year b \<or> (year a = year b \<and>
        (month a < month b \<or> (month a = month b \<and> day a < day b))))"

definition date_le :: "date \<Rightarrow> date \<Rightarrow> bool" where
  "date_le a b = (a = b \<or> date_lt a b)"

text \<open>
  \<open>date.toordinal()\<close>: the number of the day, 0001-01-01 being day 1, from the days
  before the year, the days before the month and the day; \<open>date.weekday()\<close> is
  \<open>(toordinal + 6) % 7\<close>, Monday being 0.
\<close>

definition days_before_year :: "nat \<Rightarrow> nat" where
  "days_before_year y = (let y' = y - 1 in y' * 365 + y' div 4 - y' div 100 + y' div 400)"

definition DAYS_BEFORE_MONTH :: "nat list" where
  "DAYS_BEFORE_MONTH = [0, 31, 59, 90, 120, 151, 181, 212, 243, 273, 304, 334]"

definition days_before_month :: "nat \<Rightarrow> nat \<Rightarrow> nat" where
  "days_before_month y m =
     DAYS_BEFORE_MONTH ! (m - 1) + (if m > 2 \<and> is_leap y then 1 else 0)"

definition toordinal :: "date \<Rightarrow> nat" where
  "toordinal d = days_before_year (year d) + days_before_month (year d) (month d) + day d"

definition weekday :: "date \<Rightarrow> nat" where
  "weekday d = (toordinal d + 6) mod 7"

text \<open>
  \<open>d + timedelta(days=k)\<close> for \<open>k \<ge> 0\<close>: the date \<open>k\<close> days after \<open>d\<close>, and
  \<open>OverflowError\<close> when that is past 9999-12-31.
\<close>

definition next_day :: "date \<Rightarrow> date" where
  "next_day d =
     (if day d < days_in_month (year d) (month d) then Date (year d) (month d) (day d + 1)
      else if month d < 12 then Date (year d) (month d + 1) 1
      else Date (year d + 1) 1 1)"

primrec days_later :: "nat \<Rightarrow> date \<Rightarrow> date" where
  "days_later 0 d = d"
| "days_later (Suc k) d = days_later k (next_day d)"

definition add_days :: "date \<Rightarrow> nat \<Rightarrow> exn + date" where
  "add_days d k =
     (let r = days_later k d in if year r > 9999 then Inl OverflowError else Inr r)"

text \<open>\<open>strftime("%A")\<close> in the C locale, which the program never changes.\<close>

definition DAY_NAMES :: "pystr list" where
  "DAY_NAMES = [lit ''Monday'', lit ''Tuesday'', lit ''Wednesday'', lit ''Thursday'',
     lit ''Friday'', lit ''Saturday'', lit ''Sunday'']"

definition strftime_A :: "date \<Rightarrow> pystr" where
  "strftime_A d = DAY_NAMES ! weekday d"

subsection \<open>Parsing: \<open>datetime.strptime(value, "%d.%m.%Y").date()\<close>\<close>

text \<open>
  \<open>strptime\<close> turns the format into the regular expression
  \<^verbatim>\<open>(?P<d>3[0-1]|[1-2]\d|0[1-9]|[1-9]| [1-9])\.(?P<m>1[0-2]|0[1-9]|[1-9])\.(?P<Y>\d\d\d\d)\<close>,
  matches it at the start of the string, raises \<open>ValueError\<close> when there is no match
  or when the match does not reach the end of the string, reads the three groups with
  \<open>int\<close> and builds the date, whose constructor raises \<open>ValueError\<close> on an impossible
  one. Each piece of the expression is the list of its ways to match a prefix of the
  input, in the order the matcher tries them, each with the rest of the input.
\<close>

definition in_chars :: "char \<Rightarrow> char \<Rightarrow> nat \<Rightarrow> bool" where
  "in_chars lo hi c = (of_char lo \<le> c \<and> c \<le> of_char hi)"

definition alt1 :: "(nat \<Rightarrow> bool) \<Rightarrow> pystr \<Rightarrow> (pystr \<times> pystr) list" where
  "alt1 p s = (case s of c # r \<Rightarrow> if p c then [([c], r)] else [] | [] \<Rightarrow> [])"

definition alt2 ::
  "(nat \<Rightarrow> bool) \<Rightarrow> (nat \<Rightarrow> bool) \<Rightarrow> pystr \<Rightarrow> (pystr \<times> pystr) list" where
  "alt2 p q s =
     (case s of c1 # c2 # r \<Rightarrow> if p c1 \<and> q c2 then [([c1, c2], r)] else [] | _ \<Rightarrow> [])"

definition re_day :: "pystr \<Rightarrow> (pystr \<times> pystr) list" where
  "re_day s =
     alt2 (in_chars CHR ''3'' CHR ''3'') (in_chars CHR ''0'' CHR ''1'') s @
     alt2 (in_chars CHR ''1'' CHR ''2'') isdecimal_char s @
     alt2 (in_chars CHR ''0'' CHR ''0'') (in_chars CHR ''1'' CHR ''9'') s @
     alt1 (in_chars CHR ''1'' CHR ''9'') s @
     alt2 (in_chars CHR '' '' CHR '' '') (in_chars CHR ''1'' CHR ''9'') s"

definition re_month :: "pystr \<Rightarrow> (pystr \<times> pystr) list" where
  "re_month s =
     alt2 (in_chars CHR ''1'' CHR ''1'') (in_chars CHR ''0'' CHR ''2'') s @
     alt2 (in_chars CHR ''0'' CHR ''0'') (in_chars CHR ''1'' CHR ''9'') s @
     alt1 (in_chars CHR ''1'' CHR ''9'') s"

definition re_year :: "pystr \<Rightarrow> (pystr \<times> pystr) list" where
  "re_year s =
     (case s of a # b # c # d # r \<Rightarrow>
        if isdecimal_char a \<and> isdecimal_char b \<and> isdecimal_char c \<and> isdecimal_char d
        then [([a, b, c, d], r)] else []
      | _ \<Rightarrow> [])"

definition re_dot :: "pystr \<Rightarrow> pystr list" where
  "re_dot s = (case s of c # r \<Rightarrow> if c = of_char CHR ''.'' then [r] else [] | [] \<Rightarrow> [])"

definition re_match :: "pystr \<Rightarrow> (pystr \<times> pystr \<times> pystr \<times> pystr) list" where
  "re_match s =
     [(d, m, y, r5). (d, r1) \<leftarrow> re_day s, r2 \<leftarrow> re_dot r1, (m, r3) \<leftarrow> re_month r2,
        r4 \<leftarrow> re_dot r3, (y, r5) \<leftarrow> re_year r4]"

text \<open>
  \<open>int(s)\<close> on a string of decimal digits, white space around them ignored: the value of
  a digit is its offset in its range of \<open>decimal_ranges\<close>, modulo 10.
\<close>

definition digit_value :: "nat \<Rightarrow> nat" where
  "digit_value c =
     (case filter (\<lambda>(lo, hi). lo \<le> c \<and> c \<le> hi) decimal_ranges of
        (lo, hi) # _ \<Rightarrow> (c - lo) mod 10
      | [] \<Rightarrow> 0)"

definition py_int :: "pystr \<Rightarrow> nat" where
  "py_int s = foldl (\<lambda>a c. 10 * a + digit_value c) 0 (strip s)"

text \<open>
  The messages of the two \<open>ValueError\<close>s name the data string through \<open>repr\<close>, which
  for the strings a \<open>Birthday\<close> stores (digits and dots) only adds the quotes.
\<close>

definition strptime :: "pystr \<Rightarrow> exn + date" where
  "strptime s =
     (case re_match s of
        [] \<Rightarrow> Inl (ValueError (lit ''time data '' @ [39] @ s @ [39] @
                 lit '' does not match format '' @ [39] @ lit ''%d.%m.%Y'' @ [39]))
      | (d, m, y, rest) # _ \<Rightarrow>
          if rest \<noteq> [] then Inl (ValueError (lit ''unconverted data remains: '' @ rest))
          else date_new (py_int y) (py_int m) (py_int d))"

subsection \<open>Formatting: \<open>dt.strftime("%d.%m.%Y")\<close>\<close>

text \<open>
  \<open>%d\<close> and \<open>%m\<close> are two digits. \<open>%Y\<close> is left to the C library: glibc (Linux) writes
  the year's digits without padding, so 999 gives \<open>999\<close>; other platforms fill with
  zeros to four digits. \<open>zero_pad\<close> says which platform runs the program.
\<close>

definition two_digits :: "nat \<Rightarrow> pystr" where
  "two_digits n = [48 + n div 10, 48 + n mod 10]"

definition four_digits :: "nat \<Rightarrow> pystr" where
  "four_digits n = [48 + n div 1000, 48 + n div 100 mod 10, 48 + n div 10 mod 10, 48 + n mod 10]"

definition strftime :: "bool \<Rightarrow> date \<Rightarrow> pystr" where
  "strftime zero_pad d =
     two_digits (day d) @ lit ''.'' @ two_digits (month d) @ lit ''.'' @
     (if zero_pad then four_digits (year d) else str_nat (year d))"

text \<open>
  \<open>Birthday.__init__\<close>: parse, replace the \<open>ValueError\<close> of the parser by the class's
  own, store the date formatted again. \<open>Birthday.as_date\<close> parses the stored value.
\<close>

definition Birthday :: "bool \<Rightarrow> pystr \<Rightarrow> exn + pystr" where
  "Birthday zero_pad v =
     (case strptime v of
        Inl (ValueError _) \<Rightarrow> Inl (ValueError (lit ''Invalid date format. Use DD.MM.YYYY''))
      | Inl e \<Rightarrow> Inl e
      | Inr dt \<Rightarrow> Inr (strftime zero_pad dt))"

definition as_date :: "pystr \<Rightarrow> exn + date" where
  "as_date v = strptime v"

section \<open>Record\<close>

text \<open>
  A contact: its name, the values of its \<open>Phone\<close> objects in order, and the value of its
  \<open>Birthday\<close> if it has one. A method that mutates the record returns the record after
  the call next to its result, also when it raises.
\<close>

record Record =
  name :: pystr
  phones :: "pystr list"
  birthday :: "pystr option"

definition Record_new :: "pystr \<Rightarrow> exn + Record" where
  "Record_new nm =
     (case Name nm of
        Inl e \<Rightarrow> Inl e
      | Inr n \<Rightarrow> Inr \<lparr>name = n, phones = [], birthday = None\<rparr>)"

definition add_phone :: "Record \<Rightarrow> pystr \<Rightarrow> (exn + unit) \<times> Record" where
  "add_phone r phone =
     (case Phone phone of
        Inl e \<Rightarrow> (Inl e, r)
      | Inr p \<Rightarrow> (Inr (), r\<lparr>phones := phones r @ [p]\<rparr>))"

text \<open>\<open>remove_phone\<close>: the first phone with the value is removed from the list.\<close>

fun remove_phone_loop :: "pystr list \<Rightarrow> pystr \<Rightarrow> bool \<times> pystr list" where
  "remove_phone_loop [] phone = (False, [])"
| "remove_phone_loop (p # ps) phone =
     (if p = phone then (True, ps)
      else (case remove_phone_loop ps phone of (b, ps') \<Rightarrow> (b, p # ps')))"

definition remove_phone :: "Record \<Rightarrow> pystr \<Rightarrow> bool \<times> Record" where
  "remove_phone r phone =
     (case remove_phone_loop (phones r) phone of (b, ps) \<Rightarrow> (b, r\<lparr>phones := ps\<rparr>))"

text \<open>
  \<open>edit_phone\<close>: the loop stops at the first phone with the old value; there
  \<open>Phone(new_phone)\<close> is built, which may raise, and its value is written in place.
\<close>

fun edit_phone_loop :: "pystr list \<Rightarrow> pystr \<Rightarrow> pystr \<Rightarrow> exn + bool \<times> pystr list" where
  "edit_phone_loop [] old_phone new_phone = Inr (False, [])"
| "edit_phone_loop (p # ps) old_phone new_phone =
     (if p = old_phone then
        (case Phone new_phone of Inl e \<Rightarrow> Inl e | Inr v \<Rightarrow> Inr (True, v # ps))
      else
        (case edit_phone_loop ps old_phone new_phone of
           Inl e \<Rightarrow> Inl e
         | Inr (b, ps') \<Rightarrow> Inr (b, p # ps')))"

definition edit_phone :: "Record \<Rightarrow> pystr \<Rightarrow> pystr \<Rightarrow> (exn + bool) \<times> Record" where
  "edit_phone r old_phone new_phone =
     (case edit_phone_loop (phones r) old_phone new_phone of
        Inl e \<Rightarrow> (Inl e, r)
      | Inr (b, ps) \<Rightarrow> (Inr b, r\<lparr>phones := ps\<rparr>))"

definition find_phone :: "Record \<Rightarrow> pystr \<Rightarrow> pystr option" where
  "find_phone r phone = List.find (\<lambda>p. p = phone) (phones r)"

definition Record_add_birthday :: "bool \<Rightarrow> Record \<Rightarrow> pystr \<Rightarrow> (exn + unit) \<times> Record" where
  "Record_add_birthday zero_pad r birthday_text =
     (case Birthday zero_pad birthday_text of
        Inl e \<Rightarrow> (Inl e, r)
      | Inr b \<Rightarrow> (Inr (), r\<lparr>birthday := Some b\<rparr>))"

section \<open>AddressBook\<close>

text \<open>
  The dictionary \<open>data\<close>, in insertion order: the keys are distinct, assigning to a key
  that is present replaces its value in place, a new key goes to the end. The objects
  are kept by value: no record is shared between two keys.
\<close>

type_synonym AddressBook = "(pystr \<times> Record) list"

fun dict_set :: "'k \<Rightarrow> 'v \<Rightarrow> ('k \<times> 'v) list \<Rightarrow> ('k \<times> 'v) list" where
  "dict_set k v [] = [(k, v)]"
| "dict_set k v ((k', v') # kvs) =
     (if k' = k then (k, v) # kvs else (k', v') # dict_set k v kvs)"

definition add_record :: "AddressBook \<Rightarrow> Record \<Rightarrow> AddressBook" where
  "add_record book r = dict_set (name r) r book"

definition find :: "AddressBook \<Rightarrow> pystr \<Rightarrow> Record option" where
  "find book nm = map_of book nm"

definition delete :: "AddressBook \<Rightarrow> pystr \<Rightarrow> bool \<times> AddressBook" where
  "delete book nm = (map_of book nm \<noteq> None, filter (\<lambda>kv. fst kv \<noteq> nm) book)"

subsection \<open>\<open>get_upcoming_birthdays\<close>\<close>

text \<open>\<open>result.setdefault(weekday, []).append(name)\<close> on an insertion-ordered dictionary.\<close>

fun setdefault_append :: "'k \<Rightarrow> 'v \<Rightarrow> ('k \<times> 'v list) list \<Rightarrow> ('k \<times> 'v list) list" where
  "setdefault_append k v [] = [(k, [v])]"
| "setdefault_append k v ((k', vs) # kvs) =
     (if k' = k then (k', vs @ [v]) # kvs else (k', vs) # setdefault_append k v kvs)"

text \<open>
  The date of the birthday to look at: this year's, or next year's when this year's
  is before today. Either construction raises \<open>ValueError\<close> on 29 February of a year
  that is not a leap year.
\<close>

definition occurrence :: "date \<Rightarrow> date \<Rightarrow> exn + date" where
  "occurrence today bday =
     (case date_new (year today) (month bday) (day bday) of
        Inl e \<Rightarrow> Inl e
      | Inr bday_this_year \<Rightarrow>
          if date_lt bday_this_year today
          then date_new (year today + 1) (month bday) (day bday)
          else Inr bday_this_year)"

text \<open>Saturday (5) moves two days on, Sunday (6) one day.\<close>

definition congratulation_day :: "date \<Rightarrow> exn + date" where
  "congratulation_day d =
     (if weekday d = 5 then add_days d 2
      else if weekday d = 6 then add_days d 1
      else Inr d)"

text \<open>The body of the loop, for one record, on the result so far.\<close>

definition upcoming_step ::
  "date \<Rightarrow> date \<Rightarrow> Record \<Rightarrow> (pystr \<times> pystr list) list \<Rightarrow> exn + (pystr \<times> pystr list) list" where
  "upcoming_step today end_day r result =
     (case birthday r of
        None \<Rightarrow> Inr result
      | Some b \<Rightarrow>
          (case as_date b of
             Inl e \<Rightarrow> Inl e
           | Inr bday \<Rightarrow>
               (case occurrence today bday of
                  Inl e \<Rightarrow> Inl e
                | Inr bday_this_year \<Rightarrow>
                    if date_le today bday_this_year \<and> date_lt bday_this_year end_day then
                      (case congratulation_day bday_this_year of
                         Inl e \<Rightarrow> Inl e
                       | Inr c \<Rightarrow> Inr (setdefault_append (strftime_A c) (name r) result))
                    else Inr result)))"

fun upcoming_loop ::
  "date \<Rightarrow> date \<Rightarrow> Record list \<Rightarrow> (pystr \<times> pystr list) list \<Rightarrow> exn + (pystr \<times> pystr list) list" where
  "upcoming_loop today end_day [] result = Inr result"
| "upcoming_loop today end_day (r # rs) result =
     (case upcoming_step today end_day r result of
        Inl e \<Rightarrow> Inl e
      | Inr result' \<Rightarrow> upcoming_loop today end_day rs result')"

text \<open>\<open>today\<close> is what \<open>date.today()\<close> returns.\<close>

definition get_upcoming_birthdays ::
  "date \<Rightarrow> AddressBook \<Rightarrow> exn + (pystr \<times> pystr list) list" where
  "get_upcoming_birthdays today book =
     (case add_days today 7 of
        Inl e \<Rightarrow> Inl e
      | Inr end_day \<Rightarrow> upcoming_loop today end_day (map snd book) [])"

section \<open>Loading\<close>

text \<open>
  \<open>load_data\<close> opens the file for reading and unpickles it, both inside the \<open>try\<close>.
  For each path the file system says what that does: \<open>open\<close> raises an exception
  (\<open>FileNotFoundError\<close> when there is no file at the path); or the file opens and
  \<open>pickle.load\<close> raises an exception on its bytes, which can be of any class
  (\<open>EOFError\<close> on an empty file, \<open>UnpicklingError\<close> on bytes that are no pickle, and
  whatever a callable named in the stream raises, \<open>FileNotFoundError\<close> included); or
  \<open>pickle.load\<close> returns an object. Of the objects only being an \<open>AddressBook\<close> or not
  matters.
\<close>

datatype pyobj = BookObj AddressBook | OtherObj

datatype entry = OpenRaises exn | LoadRaises exn | Loads pyobj

type_synonym filesystem = "pystr \<Rightarrow> entry"

text \<open>
  The inner case is the body of the \<open>try\<close>, the outer one its only handler,
  \<open>except FileNotFoundError\<close>.
\<close>

definition load_data :: "filesystem \<Rightarrow> pystr \<Rightarrow> exn + AddressBook" where
  "load_data fs filename =
     (case (case fs filename of
              OpenRaises e \<Rightarrow> Inl e
            | LoadRaises e \<Rightarrow> Inl e
            | Loads (BookObj book) \<Rightarrow> Inr book
            | Loads OtherObj \<Rightarrow> Inr []) of
        Inl FileNotFoundError \<Rightarrow> Inr []
      | r \<Rightarrow> r)"

section \<open>Command handlers\<close>

text \<open>
  \<open>input_error\<close> turns three exception classes into the string the handler returns; any
  other exception goes on to the caller.
\<close>

definition input_error :: "exn + pystr \<Rightarrow> exn + pystr" where
  "input_error r =
     (case r of
        Inr s \<Rightarrow> Inr s
      | Inl KeyError \<Rightarrow> Inr (lit ''Contact not found.'')
      | Inl (ValueError msg) \<Rightarrow>
          Inr (if msg \<noteq> [] then msg else lit ''Give me correct data please.'')
      | Inl IndexError \<Rightarrow> Inr (lit ''Enter the argument for the command'')
      | Inl e \<Rightarrow> Inl e)"

text \<open>The exceptions \<open>input_error\<close> catches.\<close>

definition caught :: "exn \<Rightarrow> bool" where
  "caught e = (case e of ValueError msg \<Rightarrow> True | KeyError \<Rightarrow> True | IndexError \<Rightarrow> True | _ \<Rightarrow> False)"

text \<open>
  An unpacking \<open>a, b, *_ = args\<close> of a list that is too short raises \<open>ValueError\<close> with
  this message.
\<close>

definition unpack_error :: "nat \<Rightarrow> nat \<Rightarrow> exn" where
  "unpack_error need got =
     ValueError (lit ''not enough values to unpack (expected at least '' @ str_nat need @
       lit '', got '' @ str_nat got @ lit '')'')"

text \<open>
  A handler returns its result and the book after the call. The record a handler
  works on is the one found under the name, or a new one, which \<open>add_record\<close> files
  under the name the record itself holds; \<open>k\<close> is the key the record is under.
\<close>

definition add_contact_body :: "pystr list \<Rightarrow> AddressBook \<Rightarrow> (exn + pystr) \<times> AddressBook" where
  "add_contact_body args book =
     (case args of
        nm # phone # _ \<Rightarrow>
          (case (case find book nm of
                   Some r \<Rightarrow> Inr (nm, r, book, lit ''Contact updated.'')
                 | None \<Rightarrow>
                     (case Record_new nm of
                        Inl e \<Rightarrow> Inl e
                      | Inr r \<Rightarrow> Inr (name r, r, add_record book r, lit ''Contact added.''))) of
             Inl e \<Rightarrow> (Inl e, book)
           | Inr (k, r, book', message) \<Rightarrow>
               if phone \<noteq> [] then
                 (case add_phone r phone of
                    (Inl e, r') \<Rightarrow> (Inl e, dict_set k r' book')
                  | (Inr _, r') \<Rightarrow> (Inr message, dict_set k r' book'))
               else (Inr message, book'))
      | _ \<Rightarrow> (Inl (unpack_error 2 (length args)), book))"

definition add_contact :: "pystr list \<Rightarrow> AddressBook \<Rightarrow> (exn + pystr) \<times> AddressBook" where
  "add_contact args book = apfst input_error (add_contact_body args book)"

definition change_contact_body :: "pystr list \<Rightarrow> AddressBook \<Rightarrow> (exn + pystr) \<times> AddressBook" where
  "change_contact_body args book =
     (case args of
        nm # old_phone # new_phone # _ \<Rightarrow>
          (case find book nm of
             None \<Rightarrow> (Inl KeyError, book)
           | Some r \<Rightarrow>
               (case edit_phone r old_phone new_phone of
                  (Inl e, r') \<Rightarrow> (Inl e, dict_set nm r' book)
                | (Inr b, r') \<Rightarrow>
                    (Inr (if b then lit ''Contact updated.'' else lit ''Old phone not found.''),
                     dict_set nm r' book)))
      | _ \<Rightarrow> (Inl (unpack_error 3 (length args)), book))"

definition change_contact :: "pystr list \<Rightarrow> AddressBook \<Rightarrow> (exn + pystr) \<times> AddressBook" where
  "change_contact args book = apfst input_error (change_contact_body args book)"

text \<open>\<open>sep.join(xs)\<close>.\<close>

fun join :: "pystr \<Rightarrow> pystr list \<Rightarrow> pystr" where
  "join sep [] = []"
| "join sep [x] = x"
| "join sep (x # y # ys) = x @ sep @ join sep (y # ys)"

definition show_phone_body :: "pystr list \<Rightarrow> AddressBook \<Rightarrow> (exn + pystr) \<times> AddressBook" where
  "show_phone_body args book =
     (case args of
        nm # _ \<Rightarrow>
          (case find book nm of
             None \<Rightarrow> (Inl KeyError, book)
           | Some r \<Rightarrow>
               if phones r = [] then (Inr (lit ''No phones.''), book)
               else (Inr (join (lit ''; '') (phones r)), book))
      | _ \<Rightarrow> (Inl (unpack_error 1 (length args)), book))"

definition show_phone :: "pystr list \<Rightarrow> AddressBook \<Rightarrow> (exn + pystr) \<times> AddressBook" where
  "show_phone args book = apfst input_error (show_phone_body args book)"

definition add_birthday_body ::
  "bool \<Rightarrow> pystr list \<Rightarrow> AddressBook \<Rightarrow> (exn + pystr) \<times> AddressBook" where
  "add_birthday_body zero_pad args book =
     (case args of
        nm # birthday_text # _ \<Rightarrow>
          (case (case find book nm of
                   Some r \<Rightarrow> Inr (nm, r, book)
                 | None \<Rightarrow>
                     (case Record_new nm of
                        Inl e \<Rightarrow> Inl e
                      | Inr r \<Rightarrow> Inr (name r, r, add_record book r))) of
             Inl e \<Rightarrow> (Inl e, book)
           | Inr (k, r, book') \<Rightarrow>
               (case Record_add_birthday zero_pad r birthday_text of
                  (Inl e, r') \<Rightarrow> (Inl e, dict_set k r' book')
                | (Inr _, r') \<Rightarrow> (Inr (lit ''Birthday added.''), dict_set k r' book')))
      | _ \<Rightarrow> (Inl (unpack_error 2 (length args)), book))"

definition add_birthday ::
  "bool \<Rightarrow> pystr list \<Rightarrow> AddressBook \<Rightarrow> (exn + pystr) \<times> AddressBook" where
  "add_birthday zero_pad args book = apfst input_error (add_birthday_body zero_pad args book)"

definition show_birthday_body :: "pystr list \<Rightarrow> AddressBook \<Rightarrow> (exn + pystr) \<times> AddressBook" where
  "show_birthday_body args book =
     (case args of
        nm # _ \<Rightarrow>
          (case find book nm of
             None \<Rightarrow> (Inl KeyError, book)
           | Some r \<Rightarrow>
               (case birthday r of
                  Some b \<Rightarrow> (Inr b, book)
                | None \<Rightarrow> (Inr (lit ''No birthday set.''), book)))
      | _ \<Rightarrow> (Inl (unpack_error 1 (length args)), book))"

definition show_birthday :: "pystr list \<Rightarrow> AddressBook \<Rightarrow> (exn + pystr) \<times> AddressBook" where
  "show_birthday args book = apfst input_error (show_birthday_body args book)"

section \<open>The accepted date strings\<close>

text \<open>
  What the three groups of the regular expression accept, each as a predicate on the
  text of the group: the day is one digit 1 to 9, alone or after a zero or a space, or
  10 to 31 (after a 1 or a 2 any decimal digit of Unicode); the month is one digit
  1 to 9, alone or after a zero, or 10 to 12; the year is four decimal digits.
  \<open>canonical\<close> is the text DD.MM.YYYY of a date.
\<close>

definition day_group :: "pystr \<Rightarrow> bool" where
  "day_group ds =
     (case ds of
        [c] \<Rightarrow> in_chars CHR ''1'' CHR ''9'' c
      | [c1, c2] \<Rightarrow>
          (c1 = of_char CHR ''3'' \<and> in_chars CHR ''0'' CHR ''1'' c2) \<or>
          (in_chars CHR ''1'' CHR ''2'' c1 \<and> isdecimal_char c2) \<or>
          ((c1 = of_char CHR ''0'' \<or> c1 = of_char CHR '' '') \<and> in_chars CHR ''1'' CHR ''9'' c2)
      | _ \<Rightarrow> False)"

definition month_group :: "pystr \<Rightarrow> bool" where
  "month_group ms =
     (case ms of
        [c] \<Rightarrow> in_chars CHR ''1'' CHR ''9'' c
      | [c1, c2] \<Rightarrow>
          (c1 = of_char CHR ''1'' \<and> in_chars CHR ''0'' CHR ''2'' c2) \<or>
          (c1 = of_char CHR ''0'' \<and> in_chars CHR ''1'' CHR ''9'' c2)
      | _ \<Rightarrow> False)"

definition year_group :: "pystr \<Rightarrow> bool" where
  "year_group ys = (length ys = 4 \<and> list_all isdecimal_char ys)"

definition canonical :: "date \<Rightarrow> pystr" where
  "canonical dt =
     two_digits (day dt) @ lit ''.'' @ two_digits (month dt) @ lit ''.'' @ four_digits (year dt)"

section \<open>Dates of the calendar\<close>

text \<open>The dates the constructor builds, without the upper bound on the year.\<close>

definition valid_date :: "date \<Rightarrow> bool" where
  "valid_date d =
     (1 \<le> year d \<and> 1 \<le> month d \<and> month d \<le> 12 \<and> 1 \<le> day d \<and>
      day d \<le> days_in_month (year d) (month d))"

section \<open>The contacts a result lists\<close>

text \<open>
  \<open>listed result w nm\<close>: the result has the name \<open>nm\<close> under the weekday name \<open>w\<close>.
  \<open>due today end_day r w\<close>: the record has a birthday whose date to look at (this
  year's, or next year's when this year's is before today) is in the window from
  \<open>today\<close> up to, not including, \<open>end_day\<close>, and \<open>w\<close> is the name of the weekday of that
  date after the move off a weekend.
\<close>

definition listed :: "(pystr \<times> pystr list) list \<Rightarrow> pystr \<Rightarrow> pystr \<Rightarrow> bool" where
  "listed result w nm = list_ex (\<lambda>(k, names). k = w \<and> nm \<in> set names) result"

definition due :: "date \<Rightarrow> date \<Rightarrow> Record \<Rightarrow> pystr \<Rightarrow> bool" where
  "due today end_day r w =
     (case birthday r of
        None \<Rightarrow> False
      | Some b \<Rightarrow>
          (case as_date b of
             Inl e \<Rightarrow> False
           | Inr bday \<Rightarrow>
               (case occurrence today bday of
                  Inl e \<Rightarrow> False
                | Inr d \<Rightarrow>
                    date_le today d \<and> date_lt d end_day \<and>
                    (case congratulation_day d of
                       Inl e \<Rightarrow> False
                     | Inr c \<Rightarrow> strftime_A c = w))))"

section \<open>Example data\<close>

text \<open>Two contacts and a file name, for the concrete instances below.\<close>

definition bob_record :: Record where
  "bob_record = \<lparr>name = lit ''bob'', phones = [lit ''0501234567'', lit ''0671234567''],
     birthday = Some (lit ''26.02.1990'')\<rparr>"

definition alice_record :: Record where
  "alice_record = \<lparr>name = lit ''alice'', phones = [], birthday = Some (lit ''29.02.2000'')\<rparr>"

definition pkl :: pystr where
  "pkl = lit ''addressbook.pkl''"

definition blank :: "pystr \<Rightarrow> Record" where
  "blank nm = \<lparr>name = nm, phones = [], birthday = None\<rparr>"

section \<open>Evaluation\<close>

text \<open>
  The definitions by which \<open>simp\<close> runs the model on a concrete input, grouped by the
  part of the program they belong to.
\<close>

lemma days_later_numeral [simp]:
  "days_later (numeral k) d = days_later (pred_numeral k) (next_day d)"
  by (simp add: numeral_eq_Suc)

lemmas string_defs = lit_def in_ranges_def digit_ranges_def decimal_ranges_def space_ranges_def
  isdigit_char_def isdecimal_char_def isspace_char_def isdigit_def strip_def str_nat.simps

lemmas date_defs = DAYS_IN_MONTH_def days_in_month_def date_new_def date_lt_def date_le_def
  days_before_year_def DAYS_BEFORE_MONTH_def days_before_month_def toordinal_def weekday_def
  next_day_def add_days_def DAY_NAMES_def strftime_A_def

lemmas parse_defs = in_chars_def alt1_def alt2_def re_day_def re_month_def re_year_def
  re_dot_def re_match_def digit_value_def py_int_def strptime_def two_digits_def
  four_digits_def strftime_def Birthday_def as_date_def

lemmas book_defs = Name_def Record_new_def add_phone_def remove_phone_def edit_phone_def
  find_phone_def Record_add_birthday_def add_record_def find_def delete_def occurrence_def
  congratulation_day_def upcoming_step_def get_upcoming_birthdays_def

lemmas handler_defs = input_error_def unpack_error_def add_contact_body_def add_contact_def
  change_contact_body_def change_contact_def show_phone_body_def show_phone_def
  add_birthday_body_def add_birthday_def show_birthday_body_def show_birthday_def

lemmas example_defs = bob_record_def alice_record_def pkl_def blank_def

lemmas group_defs = day_group_def month_group_def year_group_def canonical_def

lemmas result_defs = listed_def due_def

section \<open>Phone\<close>

lemma ascii_digit_isdigit_char: "ascii_digit c \<Longrightarrow> isdigit_char c"
  by (simp add: ascii_digit_def isdigit_char_def in_ranges_def digit_ranges_def)

text \<open>
  C2, as amended: a string of exactly 10 characters that are all digits in the sense of
  \<open>str.isdigit\<close> (the ASCII digits among them) is accepted and stored unchanged; every
  other string is rejected with the validation error.
\<close>

theorem Phone_accepts_exactly_ten_digits:
  "(length v = 10 \<and> list_all ascii_digit v \<longrightarrow> Phone v = Inr v) \<and>
   (length v = 10 \<and> list_all isdigit_char v \<longrightarrow> Phone v = Inr v) \<and>
   (\<not> (length v = 10 \<and> list_all isdigit_char v) \<longrightarrow>
      Phone v = Inl (ValueError (lit ''Phone must contain 10 digits.'')))"
proof -
  have "list_all ascii_digit v \<Longrightarrow> list_all isdigit_char v"
    by (simp add: list_all_iff ascii_digit_isdigit_char)
  moreover have "length v = 10 \<Longrightarrow> v \<noteq> []"
    by auto
  ultimately show ?thesis
    by (auto simp: isdigit_def)
qed

theorem Phone_accepts_exactly_ten_digits_witness:
  "Phone (lit ''0501234567'') = Inr (lit ''0501234567'') \<and>
   Phone [1632, 1633, 1634, 1635, 1636, 1637, 1638, 1639, 1640, 1641]
     = Inr [1632, 1633, 1634, 1635, 1636, 1637, 1638, 1639, 1640, 1641] \<and>
   Phone (lit ''12345'') = Inl (ValueError (lit ''Phone must contain 10 digits.''))"
  using Phone_accepts_exactly_ten_digits [of "lit ''0501234567''"]
    Phone_accepts_exactly_ten_digits [of "[1632, 1633, 1634, 1635, 1636, 1637, 1638, 1639, 1640, 1641]"]
    Phone_accepts_exactly_ten_digits [of "lit ''12345''"]
  by (simp add: lit_def ascii_digit_def isdigit_char_def in_ranges_def digit_ranges_def)

text \<open>
  C2 as stated fails: the ten Arabic-Indic digits U+0661 ... U+0669, U+0660 are not ASCII
  digits, and the phone is accepted.
\<close>

theorem Phone_non_ascii_digits_counterexample:
  "\<not> list_all ascii_digit [1633, 1634, 1635, 1636, 1637, 1638, 1639, 1640, 1641, 1632] \<and>
   Phone [1633, 1634, 1635, 1636, 1637, 1638, 1639, 1640, 1641, 1632]
     = Inr [1633, 1634, 1635, 1636, 1637, 1638, 1639, 1640, 1641, 1632]"
  by (simp add: ascii_digit_def isdigit_def isdigit_char_def in_ranges_def digit_ranges_def)


section \<open>Loading\<close>

text \<open>
  C3, as amended: \<open>load_data\<close> returns an empty book, and raises nothing, when there is
  no file at the path, when the file unpickles to an object that is not an
  \<open>AddressBook\<close>, and when unpickling itself raises \<open>FileNotFoundError\<close>; a pickled
  \<open>AddressBook\<close> is returned as it is. Every other exception, of \<open>open\<close> on a file
  that cannot be opened or of \<open>pickle.load\<close> on a corrupt file, goes to the caller:
  only \<open>FileNotFoundError\<close> is caught.
\<close>

theorem load_data_fallback:
  "(fs p = OpenRaises FileNotFoundError \<longrightarrow> load_data fs p = Inr []) \<and>
   (fs p = Loads OtherObj \<longrightarrow> load_data fs p = Inr []) \<and>
   (fs p = LoadRaises FileNotFoundError \<longrightarrow> load_data fs p = Inr []) \<and>
   (fs p = Loads (BookObj book) \<longrightarrow> load_data fs p = Inr book) \<and>
   (e \<noteq> FileNotFoundError \<and> (fs p = OpenRaises e \<or> fs p = LoadRaises e) \<longrightarrow>
      load_data fs p = Inl e)"
  by (cases e) (auto simp: load_data_def)

theorem load_data_fallback_witness:
  "load_data (\<lambda>_. OpenRaises FileNotFoundError) pkl = Inr [] \<and>
   load_data (\<lambda>_. Loads OtherObj) pkl = Inr [] \<and>
   load_data (\<lambda>_. LoadRaises FileNotFoundError) pkl = Inr [] \<and>
   load_data (\<lambda>_. Loads (BookObj [(lit ''bob'', bob_record)])) pkl = Inr [(lit ''bob'', bob_record)] \<and>
   load_data (\<lambda>_. OpenRaises PermissionError) pkl = Inl PermissionError \<and>
   load_data (\<lambda>_. LoadRaises UnpicklingError) pkl = Inl UnpicklingError"
  using load_data_fallback [of "\<lambda>_. OpenRaises FileNotFoundError" pkl]
    load_data_fallback [of "\<lambda>_. Loads OtherObj" pkl]
    load_data_fallback [of "\<lambda>_. LoadRaises FileNotFoundError" pkl]
    load_data_fallback [of "\<lambda>_. Loads (BookObj [(lit ''bob'', bob_record)])" pkl
      "[(lit ''bob'', bob_record)]"]
    load_data_fallback [of "\<lambda>_. OpenRaises PermissionError" pkl _ PermissionError]
    load_data_fallback [of "\<lambda>_. LoadRaises UnpicklingError" pkl _ UnpicklingError]
  by simp

text \<open>
  C3 as stated fails: the file at the path is empty, \<open>pickle.load\<close> raises \<open>EOFError\<close> on
  it, and \<open>load_data\<close> raises that instead of returning an empty book.
\<close>

theorem load_data_corrupt_counterexample:
  "load_data ((\<lambda>_. OpenRaises FileNotFoundError)(pkl := LoadRaises EOFError)) pkl = Inl EOFError"
  by (simp add: load_data_def)

section \<open>Editing a phone\<close>

lemma edit_phone_loop_absent:
  "old \<notin> set ps \<Longrightarrow> edit_phone_loop ps old new = Inr (False, ps)"
  by (induction ps) auto

lemma edit_phone_loop_invalid:
  "old \<in> set ps \<Longrightarrow> Phone new = Inl e \<Longrightarrow> edit_phone_loop ps old new = Inl e"
  by (induction ps) (auto simp del: Phone.simps)

lemma edit_phone_loop_present:
  "old \<in> set ps \<Longrightarrow> Phone new = Inr v \<Longrightarrow>
   \<exists>i<length ps. ps ! i = old \<and> (\<forall>j<i. ps ! j \<noteq> old) \<and>
     edit_phone_loop ps old new = Inr (True, ps[i := v])"
proof (induction ps)
  case Nil
  then show ?case by simp
next
  case (Cons p ps)
  show ?case
  proof (cases "p = old")
    case True
    with Cons.prems have "edit_phone_loop (p # ps) old new = Inr (True, (p # ps)[0 := v])"
      by (simp del: Phone.simps)
    with True show ?thesis by (intro exI [of _ 0]) simp
  next
    case False
    with Cons obtain i where i: "i < length ps" "ps ! i = old" "\<forall>j<i. ps ! j \<noteq> old"
      "edit_phone_loop ps old new = Inr (True, ps[i := v])"
      by auto
    have "\<forall>j<Suc i. (p # ps) ! j \<noteq> old"
      using False i(3) by (auto simp: nth_Cons split: nat.splits)
    with i False show ?thesis
      by (intro exI [of _ "Suc i"]) (simp del: Phone.simps)
  qed
qed

text \<open>
  C6, as amended: with no phone equal to \<open>old\<close>, \<open>edit_phone\<close> returns \<open>False\<close> and the
  record is unchanged. With a phone equal to \<open>old\<close> and a valid \<open>new\<close>, it returns \<open>True\<close>
  and the list differs at one index only, that of the first phone equal to \<open>old\<close>, which
  now holds \<open>new\<close>. With a phone equal to \<open>old\<close> and an invalid \<open>new\<close>, it raises the
  validation error and the record is unchanged.
\<close>

theorem edit_phone_frame:
  "(old \<notin> set (phones r) \<longrightarrow> edit_phone r old new = (Inr False, r)) \<and>
   (old \<in> set (phones r) \<and> Phone new = Inr new \<longrightarrow>
      (\<exists>i<length (phones r). phones r ! i = old \<and> (\<forall>j<i. phones r ! j \<noteq> old) \<and>
         edit_phone r old new = (Inr True, r\<lparr>phones := (phones r)[i := new]\<rparr>))) \<and>
   (old \<in> set (phones r) \<and> Phone new = Inl e \<longrightarrow> edit_phone r old new = (Inl e, r))"
proof (intro conjI impI)
  assume "old \<notin> set (phones r)"
  then show "edit_phone r old new = (Inr False, r)"
    by (simp add: edit_phone_def edit_phone_loop_absent)
next
  assume "old \<in> set (phones r) \<and> Phone new = Inr new"
  then obtain i where "i < length (phones r)" "phones r ! i = old" "\<forall>j<i. phones r ! j \<noteq> old"
    "edit_phone_loop (phones r) old new = Inr (True, (phones r)[i := new])"
    using edit_phone_loop_present by blast
  then show "\<exists>i<length (phones r). phones r ! i = old \<and> (\<forall>j<i. phones r ! j \<noteq> old) \<and>
         edit_phone r old new = (Inr True, r\<lparr>phones := (phones r)[i := new]\<rparr>)"
    by (auto simp: edit_phone_def)
next
  assume "old \<in> set (phones r) \<and> Phone new = Inl e"
  then show "edit_phone r old new = (Inl e, r)"
    by (simp add: edit_phone_def edit_phone_loop_invalid del: Phone.simps)
qed

theorem edit_phone_frame_witness:
  "lit ''0000000000'' \<notin> set (phones bob_record) \<and>
   edit_phone bob_record (lit ''0000000000'') (lit ''0931234567'') = (Inr False, bob_record) \<and>
   lit ''0671234567'' \<in> set (phones bob_record) \<and>
   Phone (lit ''0931234567'') = Inr (lit ''0931234567'') \<and>
   edit_phone bob_record (lit ''0671234567'') (lit ''0931234567'')
     = (Inr True, bob_record\<lparr>phones := [lit ''0501234567'', lit ''0931234567'']\<rparr>) \<and>
   Phone (lit ''12'') = Inl (ValueError (lit ''Phone must contain 10 digits.'')) \<and>
   edit_phone bob_record (lit ''0671234567'') (lit ''12'')
     = (Inl (ValueError (lit ''Phone must contain 10 digits.'')), bob_record)"
  using edit_phone_frame [of "lit ''0000000000''" bob_record "lit ''0931234567''"]
    edit_phone_frame [of "lit ''0671234567''" bob_record "lit ''0931234567''"]
    edit_phone_frame [of "lit ''0671234567''" bob_record "lit ''12''"]
  by (simp add: example_defs string_defs book_defs)

text \<open>
  C6 as stated fails: the record has a phone equal to \<open>old\<close>, but \<open>new\<close> is not a valid
  phone, and \<open>edit_phone\<close> raises instead of replacing the entry and returning success.
\<close>

theorem edit_phone_invalid_new_counterexample:
  "lit ''0671234567'' \<in> set (phones bob_record) \<and>
   edit_phone bob_record (lit ''0671234567'') (lit ''12'')
     = (Inl (ValueError (lit ''Phone must contain 10 digits.'')), bob_record)"
  by (simp add: example_defs string_defs book_defs)

section \<open>Command handlers\<close>

lemma dict_set_absent: "map_of kvs k = None \<Longrightarrow> dict_set k v kvs = kvs @ [(k, v)]"
  by (induction kvs) (auto split: if_splits)

lemma dict_set_last:
  "map_of kvs k = None \<Longrightarrow> dict_set k v' (kvs @ [(k, v)]) = kvs @ [(k, v')]"
  by (induction kvs) (auto split: if_splits)

lemma find_last: "map_of kvs k = None \<Longrightarrow> find (kvs @ [(k, v)]) k = Some v"
  by (simp add: find_def map_of_append map_add_def)

lemma Name_trimmed: "nm \<noteq> [] \<Longrightarrow> strip nm = nm \<Longrightarrow> Name nm = Inr nm"
  by (simp add: Name_def)

lemma Phone_Inr: "Phone p = Inr q \<Longrightarrow> q = p \<and> p \<noteq> []"
  by (auto simp: isdigit_def split: if_splits)

lemma Phone_Inl: "Phone p = Inl e \<Longrightarrow> e = ValueError (lit ''Phone must contain 10 digits.'')"
  by (auto split: if_splits)

lemma date_new_Inl: "date_new y m d = Inl e \<Longrightarrow> \<exists>msg. e = ValueError msg"
  by (auto simp: date_new_def split: if_splits)

lemma strptime_Inl: "strptime v = Inl e \<Longrightarrow> \<exists>msg. e = ValueError msg"
  by (auto simp: strptime_def split: list.splits if_splits dest: date_new_Inl)

lemma Birthday_Inl:
  "Birthday zp v = Inl e \<Longrightarrow> e = ValueError (lit ''Invalid date format. Use DD.MM.YYYY'')"
  by (auto simp: Birthday_def split: sum.splits exn.splits dest: strptime_Inl)

lemma caught_simps: "caught (ValueError msg)" "caught KeyError" "caught IndexError"
  by (simp_all add: caught_def)

lemma input_error_caught: "(\<And>e. r = Inl e \<Longrightarrow> caught e) \<Longrightarrow> \<exists>s. input_error r = Inr s"
  by (cases r) (auto simp: input_error_def caught_def split: exn.splits)

lemma Name_caught: "Name v = Inl e \<Longrightarrow> caught e"
  by (auto simp: Name_def caught_simps Let_def split: if_splits)

lemma Phone_caught: "Phone v = Inl e \<Longrightarrow> caught e"
  by (auto simp: caught_simps split: if_splits)

lemma Birthday_caught: "Birthday zp v = Inl e \<Longrightarrow> caught e"
  by (auto simp: caught_simps dest: Birthday_Inl)

lemma unpack_error_caught: "caught (unpack_error need got)"
  by (simp add: unpack_error_def caught_simps)

lemma add_contact_body_caught: "fst (add_contact_body args book) = Inl e \<Longrightarrow> caught e"
  by (auto simp: add_contact_body_def Record_new_def add_phone_def unpack_error_caught
      split: list.splits option.splits sum.splits prod.splits if_splits
      dest: Name_caught Phone_caught simp del: Phone.simps)

lemma change_contact_body_caught: "fst (change_contact_body args book) = Inl e \<Longrightarrow> caught e"
proof -
  have "edit_phone_loop ps old new = Inl e' \<Longrightarrow> caught e'" for ps old new e'
    by (induction ps) (auto split: if_splits sum.splits dest: Phone_caught simp del: Phone.simps)
  moreover assume "fst (change_contact_body args book) = Inl e"
  ultimately show ?thesis
    by (auto simp: change_contact_body_def edit_phone_def unpack_error_caught caught_simps
        split: list.splits option.splits sum.splits prod.splits if_splits)
qed

lemma show_phone_body_caught: "fst (show_phone_body args book) = Inl e \<Longrightarrow> caught e"
  by (auto simp: show_phone_body_def unpack_error_caught caught_simps
      split: list.splits option.splits if_splits)

lemma add_birthday_body_caught: "fst (add_birthday_body zp args book) = Inl e \<Longrightarrow> caught e"
  by (auto simp: add_birthday_body_def Record_new_def Record_add_birthday_def unpack_error_caught
      split: list.splits option.splits sum.splits prod.splits if_splits
      dest: Name_caught Birthday_caught)

lemma show_birthday_body_caught: "fst (show_birthday_body args book) = Inl e \<Longrightarrow> caught e"
  by (auto simp: show_birthday_body_def unpack_error_caught caught_simps
      split: list.splits option.splits if_splits)

text \<open>No handler raises: every exception of a body is one that \<open>input_error\<close> catches.\<close>

lemma handlers_do_not_raise:
  "(\<exists>s. fst (add_contact args book) = Inr s) \<and>
   (\<exists>s. fst (change_contact args book) = Inr s) \<and>
   (\<exists>s. fst (show_phone args book) = Inr s) \<and>
   (\<exists>s. fst (add_birthday zp args book) = Inr s) \<and>
   (\<exists>s. fst (show_birthday args book) = Inr s)"
  by (simp add: add_contact_def change_contact_def show_phone_def add_birthday_def
      show_birthday_def input_error_caught add_contact_body_caught change_contact_body_caught
      show_phone_body_caught add_birthday_body_caught show_birthday_body_caught)

text \<open>
  C4: a handler called with too few arguments. The unpacking raises \<open>ValueError\<close>, not
  \<open>IndexError\<close>, so \<open>input_error\<close> returns the message of that \<open>ValueError\<close>; the book is
  unchanged and nothing is raised.
\<close>

theorem missing_argument_message:
  "add_contact [] book
     = (Inr (lit ''not enough values to unpack (expected at least 2, got 0)''), book) \<and>
   add_contact [a] book
     = (Inr (lit ''not enough values to unpack (expected at least 2, got 1)''), book) \<and>
   change_contact [] book
     = (Inr (lit ''not enough values to unpack (expected at least 3, got 0)''), book) \<and>
   change_contact [a] book
     = (Inr (lit ''not enough values to unpack (expected at least 3, got 1)''), book) \<and>
   change_contact [a, b] book
     = (Inr (lit ''not enough values to unpack (expected at least 3, got 2)''), book) \<and>
   show_phone [] book
     = (Inr (lit ''not enough values to unpack (expected at least 1, got 0)''), book) \<and>
   add_birthday zp [] book
     = (Inr (lit ''not enough values to unpack (expected at least 2, got 0)''), book) \<and>
   add_birthday zp [a] book
     = (Inr (lit ''not enough values to unpack (expected at least 2, got 1)''), book) \<and>
   show_birthday [] book
     = (Inr (lit ''not enough values to unpack (expected at least 1, got 0)''), book)"
  by (simp add: handler_defs lit_def str_nat.simps)

text \<open>
  C7, as amended: for a name that is not empty and has no white space at either end, and
  a book without that name, \<open>add\<close> with a valid phone puts one record at the end of the
  book, under that name, with that phone alone; \<open>add\<close> again with the same name and a
  valid phone leaves the book with the same names and that record with both phones, in
  the order they were added.
\<close>

theorem add_contact_twice:
  assumes "find book nm = None" and "nm \<noteq> []" and "strip nm = nm"
    and "Phone p1 = Inr p1" and "Phone p2 = Inr p2"
  shows "add_contact (nm # p1 # xs) book
           = (Inr (lit ''Contact added.''), book @ [(nm, \<lparr>name = nm, phones = [p1], birthday = None\<rparr>)]) \<and>
         add_contact (nm # p2 # ys) (book @ [(nm, \<lparr>name = nm, phones = [p1], birthday = None\<rparr>)])
           = (Inr (lit ''Contact updated.''),
              book @ [(nm, \<lparr>name = nm, phones = [p1, p2], birthday = None\<rparr>)])"
proof -
  from assms(1) have absent: "map_of book nm = None"
    by (simp add: find_def)
  from assms(4,5) have ne: "p1 \<noteq> []" "p2 \<noteq> []"
    by (auto dest: Phone_Inr)
  have first: "add_contact (nm # p1 # xs) book
      = (Inr (lit ''Contact added.''), book @ [(nm, \<lparr>name = nm, phones = [p1], birthday = None\<rparr>)])"
    using assms ne absent
    by (simp add: add_contact_def add_contact_body_def Record_new_def Name_trimmed add_record_def
        add_phone_def input_error_def dict_set_absent dict_set_last del: Phone.simps)
  have second: "add_contact (nm # p2 # ys) (book @ [(nm, \<lparr>name = nm, phones = [p1], birthday = None\<rparr>)])
      = (Inr (lit ''Contact updated.''), book @ [(nm, \<lparr>name = nm, phones = [p1, p2], birthday = None\<rparr>)])"
    using assms ne absent
    by (simp add: add_contact_def add_contact_body_def find_last add_phone_def input_error_def
        dict_set_last del: Phone.simps)
  from first second show ?thesis by simp
qed

theorem add_contact_twice_witness:
  "find [(lit ''alice'', alice_record)] (lit ''bob'') = None \<and>
   strip (lit ''bob'') = lit ''bob'' \<and>
   Phone (lit ''0501234567'') = Inr (lit ''0501234567'') \<and>
   Phone (lit ''0671234567'') = Inr (lit ''0671234567'') \<and>
   add_contact [lit ''bob'', lit ''0501234567''] [(lit ''alice'', alice_record)]
     = (Inr (lit ''Contact added.''),
        [(lit ''alice'', alice_record),
         (lit ''bob'', \<lparr>name = lit ''bob'', phones = [lit ''0501234567''], birthday = None\<rparr>)]) \<and>
   add_contact [lit ''bob'', lit ''0671234567'']
       [(lit ''alice'', alice_record),
        (lit ''bob'', \<lparr>name = lit ''bob'', phones = [lit ''0501234567''], birthday = None\<rparr>)]
     = (Inr (lit ''Contact updated.''),
        [(lit ''alice'', alice_record),
         (lit ''bob'', \<lparr>name = lit ''bob'', phones = [lit ''0501234567'', lit ''0671234567''],
            birthday = None\<rparr>)])"
  using add_contact_twice [of "[(lit ''alice'', alice_record)]" "lit ''bob''"
      "lit ''0501234567''" "lit ''0671234567''" "[]" "[]"]
  by (simp add: find_def string_defs)

text \<open>
  C7 as stated fails: for the name \<open>" bob"\<close>, with a space in front, the record is
  filed under \<open>"bob"\<close>, the name the record holds after stripping, and the book still
  has no record under the name the handler was called with.
\<close>

theorem add_contact_untrimmed_name_counterexample:
  "find [] (lit '' bob'') = None \<and>
   Phone (lit ''0501234567'') = Inr (lit ''0501234567'') \<and>
   add_contact [lit '' bob'', lit ''0501234567''] []
     = (Inr (lit ''Contact added.''),
        [(lit ''bob'', \<lparr>name = lit ''bob'', phones = [lit ''0501234567''], birthday = None\<rparr>)]) \<and>
   find (snd (add_contact [lit '' bob'', lit ''0501234567''] [])) (lit '' bob'') = None"
  by (simp add: string_defs book_defs handler_defs)

text \<open>
  C10, as amended: for a name that is not empty and has no white space at either end,
  and a book without that name, \<open>add\<close> with a phone that is not empty and not valid, and
  \<open>add-birthday\<close> with a date string that is not valid, return the message of the
  validation error and leave a new record under that name, with no phone and no
  birthday, at the end of the book.
\<close>

theorem failed_validation_leaves_record:
  assumes "find book nm = None" and "nm \<noteq> []" and "strip nm = nm"
  shows "(phone \<noteq> [] \<and> Phone phone = Inl e \<longrightarrow>
            add_contact (nm # phone # xs) book
              = (Inr (lit ''Phone must contain 10 digits.''), book @ [(nm, blank nm)])) \<and>
         (Birthday zp birthday_text = Inl e' \<longrightarrow>
            add_birthday zp (nm # birthday_text # ys) book
              = (Inr (lit ''Invalid date format. Use DD.MM.YYYY''), book @ [(nm, blank nm)]))"
proof (intro conjI impI)
  from assms(1) have absent: "map_of book nm = None"
    by (simp add: find_def)
  {
    assume a: "phone \<noteq> [] \<and> Phone phone = Inl e"
    then have "e = ValueError (lit ''Phone must contain 10 digits.'')"
      by (auto dest: Phone_Inl simp del: Phone.simps)
    with a assms absent show "add_contact (nm # phone # xs) book
        = (Inr (lit ''Phone must contain 10 digits.''), book @ [(nm, blank nm)])"
      by (simp add: add_contact_def add_contact_body_def Record_new_def Name_trimmed add_record_def
          add_phone_def input_error_def dict_set_absent dict_set_last blank_def lit_def
          del: Phone.simps)
  }
  {
    assume a: "Birthday zp birthday_text = Inl e'"
    then have "e' = ValueError (lit ''Invalid date format. Use DD.MM.YYYY'')"
      by (rule Birthday_Inl)
    with a assms absent show "add_birthday zp (nm # birthday_text # ys) book
        = (Inr (lit ''Invalid date format. Use DD.MM.YYYY''), book @ [(nm, blank nm)])"
      by (simp add: add_birthday_def add_birthday_body_def Record_new_def Name_trimmed
          add_record_def Record_add_birthday_def input_error_def dict_set_absent dict_set_last
          blank_def lit_def)
  }
qed


theorem failed_validation_leaves_record_witness:
  "find [(lit ''alice'', alice_record)] (lit ''bob'') = None \<and>
   strip (lit ''bob'') = lit ''bob'' \<and>
   Phone (lit ''123'') = Inl (ValueError (lit ''Phone must contain 10 digits.'')) \<and>
   add_contact [lit ''bob'', lit ''123''] [(lit ''alice'', alice_record)]
     = (Inr (lit ''Phone must contain 10 digits.''),
        [(lit ''alice'', alice_record), (lit ''bob'', blank (lit ''bob''))]) \<and>
   Birthday True (lit ''31.02.2000'') = Inl (ValueError (lit ''Invalid date format. Use DD.MM.YYYY'')) \<and>
   add_birthday True [lit ''bob'', lit ''31.02.2000''] [(lit ''alice'', alice_record)]
     = (Inr (lit ''Invalid date format. Use DD.MM.YYYY''),
        [(lit ''alice'', alice_record), (lit ''bob'', blank (lit ''bob''))])"
  using failed_validation_leaves_record [of "[(lit ''alice'', alice_record)]" "lit ''bob''"
      "lit ''123''" "ValueError (lit ''Phone must contain 10 digits.'')" "[]" True "lit ''31.02.2000''"
      "ValueError (lit ''Invalid date format. Use DD.MM.YYYY'')" "[]"]
  by (simp add: find_def string_defs date_defs parse_defs)

text \<open>
  C10 as stated fails: the empty string is not a valid phone, but \<open>add\<close> skips an empty
  phone (\<open>if phone:\<close>) and returns \<open>Contact added.\<close>, not the validation error.
\<close>

theorem add_contact_empty_phone_counterexample:
  "find [] (lit ''bob'') = None \<and>
   Phone [] = Inl (ValueError (lit ''Phone must contain 10 digits.'')) \<and>
   add_contact [lit ''bob'', []] []
     = (Inr (lit ''Contact added.''), [(lit ''bob'', blank (lit ''bob''))])"
  by (simp add: example_defs string_defs book_defs handler_defs)

section \<open>Birthday\<close>

lemma alt1_iff: "(d, r) \<in> set (alt1 p s) \<longleftrightarrow> (\<exists>c. d = [c] \<and> s = c # r \<and> p c)"
  by (auto simp: alt1_def split: list.splits)

lemma alt2_iff:
  "(d, r) \<in> set (alt2 p q s) \<longleftrightarrow> (\<exists>c1 c2. d = [c1, c2] \<and> s = c1 # c2 # r \<and> p c1 \<and> q c2)"
  by (auto simp: alt2_def split: list.splits)

lemma re_day_iff: "(d, r) \<in> set (re_day s) \<longleftrightarrow> s = d @ r \<and> day_group d"
  by (auto simp: re_day_def alt1_iff alt2_iff day_group_def in_chars_def split: list.splits)

lemma re_month_iff: "(m, r) \<in> set (re_month s) \<longleftrightarrow> s = m @ r \<and> month_group m"
  by (auto simp: re_month_def alt1_iff alt2_iff month_group_def in_chars_def split: list.splits)

lemma re_year_iff: "(y, r) \<in> set (re_year s) \<longleftrightarrow> s = y @ r \<and> year_group y"
proof
  assume "(y, r) \<in> set (re_year s)"
  then show "s = y @ r \<and> year_group y"
    by (auto simp: re_year_def year_group_def split: list.splits if_splits)
next
  assume a: "s = y @ r \<and> year_group y"
  then obtain a b c d where "y = [a, b, c, d]"
    by (auto simp: year_group_def length_Suc_conv numeral_eq_Suc)
  with a show "(y, r) \<in> set (re_year s)"
    by (auto simp: re_year_def year_group_def)
qed

lemma re_dot_iff: "r \<in> set (re_dot s) \<longleftrightarrow> s = 46 # r"
  by (auto simp: re_dot_def split: list.splits)

lemma re_match_iff:
  "(d, m, y, r) \<in> set (re_match s) \<longleftrightarrow>
     s = d @ 46 # m @ 46 # y @ r \<and> day_group d \<and> month_group m \<and> year_group y"
proof
  assume "(d, m, y, r) \<in> set (re_match s)"
  then show "s = d @ 46 # m @ 46 # y @ r \<and> day_group d \<and> month_group m \<and> year_group y"
    by (auto simp: re_match_def re_day_iff re_month_iff re_year_iff re_dot_iff)
next
  assume a: "s = d @ 46 # m @ 46 # y @ r \<and> day_group d \<and> month_group m \<and> year_group y"
  then have 1: "(d, 46 # m @ 46 # y @ r) \<in> set (re_day s)"
    by (simp add: re_day_iff)
  have 2: "m @ 46 # y @ r \<in> set (re_dot (46 # m @ 46 # y @ r))"
    by (simp add: re_dot_iff)
  from a have 3: "(m, 46 # y @ r) \<in> set (re_month (m @ 46 # y @ r))"
    by (simp add: re_month_iff)
  have 4: "y @ r \<in> set (re_dot (46 # y @ r))"
    by (simp add: re_dot_iff)
  from a have 5: "(y, r) \<in> set (re_year (y @ r))"
    by (simp add: re_year_iff)
  from 1 2 3 4 5 show "(d, m, y, r) \<in> set (re_match s)"
    unfolding re_match_def by (simp, blast)
qed

lemma dot_not_decimal: "\<not> isdecimal_char 46"
  by (simp add: isdecimal_char_def in_ranges_def decimal_ranges_def)

lemma day_group_no_dot: "day_group d \<Longrightarrow> 46 \<notin> set d"
  using dot_not_decimal by (auto simp: day_group_def in_chars_def split: list.splits)

lemma month_group_no_dot: "month_group m \<Longrightarrow> 46 \<notin> set m"
  by (auto simp: month_group_def in_chars_def split: list.splits)

lemma split_at_first:
  "x \<notin> set xs \<Longrightarrow> x \<notin> set xs' \<Longrightarrow> xs @ x # ys = xs' @ x # ys' \<Longrightarrow> xs = xs' \<and> ys = ys'"
proof (induction xs arbitrary: xs')
  case Nil
  then show ?case by (cases xs') auto
next
  case (Cons a xs)
  then show ?case by (cases xs') auto
qed

lemma re_match_unique:
  assumes "(d, m, y, r) \<in> set (re_match s)" and "(d', m', y', r') \<in> set (re_match s)"
  shows "d' = d \<and> m' = m \<and> y' = y \<and> r' = r"
proof -
  from assms(1) have s1: "s = d @ 46 # m @ 46 # y @ r"
    and g1: "day_group d" "month_group m" "year_group y"
    by (simp_all add: re_match_iff)
  from assms(2) have s2: "s = d' @ 46 # m' @ 46 # y' @ r'"
    and g2: "day_group d'" "month_group m'" "year_group y'"
    by (simp_all add: re_match_iff)
  from s1 [symmetric] s2 have eq: "d @ 46 # m @ 46 # y @ r = d' @ 46 # m' @ 46 # y' @ r'"
    by (rule trans)
  from g1(1) g2(1) have nd: "46 \<notin> set d" "46 \<notin> set d'"
    by (auto dest: day_group_no_dot)
  from split_at_first [OF nd eq] have d: "d = d'" and rest: "m @ 46 # y @ r = m' @ 46 # y' @ r'"
    by simp_all
  from g1(2) g2(2) have nm: "46 \<notin> set m" "46 \<notin> set m'"
    by (auto dest: month_group_no_dot)
  from split_at_first [OF nm rest] have m: "m = m'" and rest': "y @ r = y' @ r'"
    by simp_all
  from g1(3) g2(3) have "length y = length y'"
    by (simp add: year_group_def)
  with rest' have "y = y' \<and> r = r'"
    by (simp add: append_eq_append_conv)
  with d m show ?thesis by simp
qed

lemma strptime_Inr_iff:
  "strptime v = Inr dt \<longleftrightarrow>
     (\<exists>d m y. v = d @ 46 # m @ 46 # y \<and> day_group d \<and> month_group m \<and> year_group y \<and>
        date_new (py_int y) (py_int m) (py_int d) = Inr dt)"
proof
  assume a: "strptime v = Inr dt"
  then obtain d m y rest ms where ms: "re_match v = (d, m, y, rest) # ms"
    by (cases "re_match v") (auto simp: strptime_def)
  with a have "rest = []" and dn: "date_new (py_int y) (py_int m) (py_int d) = Inr dt"
    by (auto simp: strptime_def split: if_splits)
  moreover from ms have "(d, m, y, rest) \<in> set (re_match v)"
    by simp
  ultimately show "\<exists>d m y. v = d @ 46 # m @ 46 # y \<and> day_group d \<and> month_group m \<and>
      year_group y \<and> date_new (py_int y) (py_int m) (py_int d) = Inr dt"
    by (auto simp: re_match_iff)
next
  assume "\<exists>d m y. v = d @ 46 # m @ 46 # y \<and> day_group d \<and> month_group m \<and> year_group y \<and>
        date_new (py_int y) (py_int m) (py_int d) = Inr dt"
  then obtain d m y where v: "v = d @ 46 # m @ 46 # y" and g: "day_group d" "month_group m"
    "year_group y" and dn: "date_new (py_int y) (py_int m) (py_int d) = Inr dt"
    by blast
  from v g have mem: "(d, m, y, []) \<in> set (re_match v)"
    by (simp add: re_match_iff)
  then obtain x xs where xs: "re_match v = x # xs"
    by (cases "re_match v") auto
  then have "x \<in> set (re_match v)"
    by simp
  with mem have "x = (d, m, y, [])"
    by (cases x) (auto dest: re_match_unique)
  with xs dn show "strptime v = Inr dt"
    by (simp add: strptime_def)
qed



lemma date_new_Inr_iff:
  "date_new y m d = Inr dt \<longleftrightarrow>
     dt = Date y m d \<and> 1 \<le> y \<and> y \<le> 9999 \<and> 1 \<le> m \<and> m \<le> 12 \<and> 1 \<le> d \<and> d \<le> days_in_month y m"
  by (auto simp: date_new_def)

lemma str_nat_four: "1000 \<le> n \<Longrightarrow> n \<le> 9999 \<Longrightarrow> str_nat n = four_digits n"
proof -
  assume a: "1000 \<le> n" "n \<le> 9999"
  then have b: "n div 1000 < 10" "\<not> n div 100 < 10" "\<not> n div 10 < 10" "\<not> n < 10"
    by arith+
  have c: "n div 100 div 10 = n div 1000" "n div 10 div 10 = n div 100"
    by (simp_all add: div_mult2_eq [symmetric])
  have 1: "str_nat (n div 1000) = [48 + n div 1000]"
    using b(1) by (subst str_nat.simps) simp
  have 2: "str_nat (n div 100) = str_nat (n div 1000) @ [48 + n div 100 mod 10]"
    using b(2) c(1) by (subst str_nat.simps) simp
  have 3: "str_nat (n div 10) = str_nat (n div 100) @ [48 + n div 10 mod 10]"
    using b(3) c(2) by (subst str_nat.simps) simp
  have 4: "str_nat n = str_nat (n div 10) @ [48 + n mod 10]"
    using b(4) by (subst str_nat.simps) simp
  show ?thesis
    by (simp add: 1 2 3 4 four_digits_def)
qed


lemma ascii_digit_decimal: "ascii_digit c \<Longrightarrow> isdecimal_char c"
  by (simp add: ascii_digit_def isdecimal_char_def in_ranges_def decimal_ranges_def)

lemma ascii_digit_not_space: "ascii_digit c \<Longrightarrow> \<not> isspace_char c"
  by (simp add: ascii_digit_def isspace_char_def in_ranges_def space_ranges_def)

lemma ascii_digit_value: "ascii_digit c \<Longrightarrow> digit_value c = c - 48"
proof -
  assume "ascii_digit c"
  then have c: "48 \<le> c" "c \<le> 57"
    by (simp_all add: ascii_digit_def)
  then have "(c - 48) mod 10 = c - 48"
    by simp
  with c show ?thesis
    by (simp add: digit_value_def decimal_ranges_def)
qed

lemma ascii_digit_plus: "a < 10 \<Longrightarrow> ascii_digit (48 + a)"
  by (simp add: ascii_digit_def)


lemma dropWhile_id: "s \<noteq> [] \<Longrightarrow> \<not> P (hd s) \<Longrightarrow> dropWhile P s = s"
  by (cases s) auto

lemma strip_digits: "s \<noteq> [] \<Longrightarrow> list_all ascii_digit s \<Longrightarrow> strip s = s"
proof -
  assume a: "s \<noteq> []" "list_all ascii_digit s"
  then have "hd s \<in> set s" "last s \<in> set s"
    by simp_all
  with a(2) have "ascii_digit (hd s)" "ascii_digit (last s)"
    by (simp_all add: list_all_iff)
  then have h: "\<not> isspace_char (hd s)" and l: "\<not> isspace_char (hd (rev s))"
    using a(1) by (simp_all add: ascii_digit_not_space hd_rev)
  from a(1) h have 1: "dropWhile isspace_char s = s"
    by (rule dropWhile_id)
  from a(1) l have 2: "dropWhile isspace_char (rev s) = rev s"
    by (intro dropWhile_id) simp_all
  show ?thesis
    by (simp add: strip_def 1 2)
qed

lemma py_int_two_digits: "n < 100 \<Longrightarrow> py_int (two_digits n) = n"
proof -
  assume a: "n < 100"
  then have "n div 10 < 10"
    by arith
  then have d: "ascii_digit (48 + n div 10)" "ascii_digit (48 + n mod 10)"
    by (simp_all add: ascii_digit_plus)
  then have "strip (two_digits n) = two_digits n"
    by (intro strip_digits) (simp_all add: two_digits_def)
  with d show ?thesis
    by (simp add: py_int_def two_digits_def ascii_digit_value)
qed


lemma four_digits_value:
  "10 * (10 * (10 * (n div 1000) + n div 100 mod 10) + n div 10 mod 10) + n mod 10 = (n::nat)"
proof -
  have c: "n div 100 div 10 = n div 1000" "n div 10 div 10 = n div 100"
    by (simp_all add: div_mult2_eq [symmetric])
  have "10 * (n div 1000) + n div 100 mod 10 = n div 100"
    using div_mult_mod_eq [of "n div 100" 10] c(1) by simp
  moreover have "10 * (n div 100) + n div 10 mod 10 = n div 10"
    using div_mult_mod_eq [of "n div 10" 10] c(2) by simp
  moreover have "10 * (n div 10) + n mod 10 = n"
    using div_mult_mod_eq [of n 10] by simp
  ultimately show ?thesis
    by simp
qed

lemma py_int_four_digits: "n < 10000 \<Longrightarrow> py_int (four_digits n) = n"
proof -
  assume a: "n < 10000"
  then have "n div 1000 < 10"
    by arith
  then have d: "ascii_digit (48 + n div 1000)" "ascii_digit (48 + n div 100 mod 10)"
    "ascii_digit (48 + n div 10 mod 10)" "ascii_digit (48 + n mod 10)"
    by (simp_all add: ascii_digit_plus)
  then have "strip (four_digits n) = four_digits n"
    by (intro strip_digits) (simp_all add: four_digits_def)
  with d have "py_int (four_digits n)
      = 10 * (10 * (10 * (n div 1000) + n div 100 mod 10) + n div 10 mod 10) + n mod 10"
    by (simp add: py_int_def four_digits_def ascii_digit_value)
  then show ?thesis
    by (simp only: four_digits_value)
qed

lemma days_in_month_le: "1 \<le> m \<Longrightarrow> m \<le> 12 \<Longrightarrow> days_in_month y m \<le> 31"
proof -
  assume "1 \<le> m" "m \<le> 12"
  then have "m = 1 \<or> m = 2 \<or> m = 3 \<or> m = 4 \<or> m = 5 \<or> m = 6 \<or> m = 7 \<or> m = 8 \<or> m = 9 \<or>
      m = 10 \<or> m = 11 \<or> m = 12"
    by presburger
  then show ?thesis
    by (elim disjE) (simp_all add: days_in_month_def DAYS_IN_MONTH_def)
qed

lemma two_digits_day_group: "1 \<le> n \<Longrightarrow> n \<le> 31 \<Longrightarrow> day_group (two_digits n)"
proof -
  assume a: "1 \<le> n" "n \<le> 31"
  have dec: "isdecimal_char (48 + n mod 10)"
    by (simp add: ascii_digit_decimal ascii_digit_plus)
  from a have "(n div 10 = 0 \<and> 1 \<le> n mod 10) \<or> n div 10 = 1 \<or> n div 10 = 2 \<or>
      (n div 10 = 3 \<and> n mod 10 \<le> 1)"
    by presburger
  then show ?thesis
    using dec by (elim disjE conjE) (simp_all add: day_group_def two_digits_def in_chars_def)
qed

lemma two_digits_month_group: "1 \<le> n \<Longrightarrow> n \<le> 12 \<Longrightarrow> month_group (two_digits n)"
proof -
  assume a: "1 \<le> n" "n \<le> 12"
  then have "(n div 10 = 0 \<and> 1 \<le> n mod 10) \<or> (n div 10 = 1 \<and> n mod 10 \<le> 2)"
    by presburger
  then show ?thesis
    by (elim disjE conjE) (simp_all add: month_group_def two_digits_def in_chars_def)
qed

lemma four_digits_year_group: "n \<le> 9999 \<Longrightarrow> year_group (four_digits n)"
proof -
  assume "n \<le> 9999"
  then have "n div 1000 < 10"
    by arith
  then show ?thesis
    by (simp add: year_group_def four_digits_def ascii_digit_decimal ascii_digit_plus)
qed


lemma strftime_canonical:
  "zp \<or> 1000 \<le> year dt \<Longrightarrow> year dt \<le> 9999 \<Longrightarrow> strftime zp dt = canonical dt"
  by (auto simp: strftime_def canonical_def str_nat_four)

lemma strptime_canonical:
  assumes "date_new y m d = Inr dt"
  shows "strptime (canonical dt) = Inr dt"
proof -
  from assms have dt: "dt = Date y m d" and y: "1 \<le> y" "y \<le> 9999" and m: "1 \<le> m" "m \<le> 12"
    and d: "1 \<le> d" "d \<le> days_in_month y m"
    by (simp_all add: date_new_Inr_iff)
  from m d(2) have d31: "d \<le> 31"
    using days_in_month_le [of m y] by simp
  have "canonical dt = two_digits d @ 46 # two_digits m @ 46 # four_digits y"
    by (simp add: canonical_def dt lit_def)
  moreover have "day_group (two_digits d)" "month_group (two_digits m)" "year_group (four_digits y)"
    using d(1) d31 m y(2)
    by (simp_all add: two_digits_day_group two_digits_month_group four_digits_year_group)
  moreover have "py_int (two_digits d) = d" "py_int (two_digits m) = m" "py_int (four_digits y) = y"
    using d31 m(2) y(2) by (simp_all add: py_int_two_digits py_int_four_digits)
  ultimately show ?thesis
    using assms by (subst strptime_Inr_iff) metis
qed

lemma Birthday_Inr_iff:
  "Birthday zp v = Inr s \<longleftrightarrow> (\<exists>dt. strptime v = Inr dt \<and> s = strftime zp dt)"
  by (auto simp: Birthday_def split: sum.splits exn.splits)

lemma Birthday_roundtrip:
  assumes "Birthday zp v = Inr b" and "strptime v = Inr dt" and "zp \<or> 1000 \<le> year dt"
  shows "as_date b = Inr dt \<and> strftime zp dt = b"
proof -
  from assms(1,2) have b: "b = strftime zp dt"
    by (simp add: Birthday_Inr_iff)
  from assms(2) obtain d m y where dn: "date_new y m d = Inr dt"
    by (auto simp: strptime_Inr_iff)
  then have "year dt \<le> 9999"
    by (auto simp: date_new_Inr_iff)
  with assms(3) have "strftime zp dt = canonical dt"
    by (simp add: strftime_canonical)
  with b dn show ?thesis
    by (simp add: as_date_def strptime_canonical)
qed

text \<open>
  C5, as amended: \<open>Birthday\<close> succeeds exactly on the strings day.month.year whose three
  texts the groups accept (a day or a month of one digit as well as the zero-padded
  one) and whose numbers form a real date of the years 1 to 9999; it stores that date
  formatted again, which is the canonical DD.MM.YYYY string when the year is at least
  1000 or the platform pads \<open>%Y\<close>.
\<close>

theorem Birthday_accepts:
  "(Birthday zp v = Inr s \<longleftrightarrow>
      (\<exists>d m y dt. v = d @ lit ''.'' @ m @ lit ''.'' @ y \<and>
         day_group d \<and> month_group m \<and> year_group y \<and>
         date_new (py_int y) (py_int m) (py_int d) = Inr dt \<and> s = strftime zp dt)) \<and>
   (Birthday zp v = Inr s \<and> strptime v = Inr dt \<and> (zp \<or> 1000 \<le> year dt) \<longrightarrow> s = canonical dt)"
proof (intro conjI impI)
  have "lit ''.'' = [46]"
    by (simp add: lit_def)
  then show "Birthday zp v = Inr s \<longleftrightarrow>
      (\<exists>d m y dt. v = d @ lit ''.'' @ m @ lit ''.'' @ y \<and>
         day_group d \<and> month_group m \<and> year_group y \<and>
         date_new (py_int y) (py_int m) (py_int d) = Inr dt \<and> s = strftime zp dt)"
    by (simp add: Birthday_Inr_iff strptime_Inr_iff) blast
next
  assume a: "Birthday zp v = Inr s \<and> strptime v = Inr dt \<and> (zp \<or> 1000 \<le> year dt)"
  then have b: "s = strftime zp dt"
    by (auto simp: Birthday_Inr_iff)
  from a obtain d m y where "date_new y m d = Inr dt"
    by (auto simp: strptime_Inr_iff)
  then have "year dt \<le> 9999"
    by (auto simp: date_new_Inr_iff)
  with a b show "s = canonical dt"
    by (simp add: strftime_canonical)
qed

theorem Birthday_accepts_witness:
  "Birthday False (lit ''1.2.2000'') = Inr (lit ''01.02.2000'') \<and>
   strptime (lit ''1.2.2000'') = Inr (Date 2000 2 1) \<and>
   lit ''01.02.2000'' = canonical (Date 2000 2 1) \<and>
   (\<exists>d m y dt. lit ''1.2.2000'' = d @ lit ''.'' @ m @ lit ''.'' @ y \<and>
      day_group d \<and> month_group m \<and> year_group y \<and>
      date_new (py_int y) (py_int m) (py_int d) = Inr dt \<and>
      lit ''01.02.2000'' = strftime False dt)"
proof -
  have b: "Birthday False (lit ''1.2.2000'') = Inr (lit ''01.02.2000'')"
    by (simp add: string_defs date_defs parse_defs)
  have p: "strptime (lit ''1.2.2000'') = Inr (Date 2000 2 1)"
    by (simp add: string_defs date_defs parse_defs)
  from b p Birthday_accepts [of False "lit ''1.2.2000''" "lit ''01.02.2000''" "Date 2000 2 1"]
  show ?thesis
    by simp
qed

text \<open>
  C5 as stated fails: \<open>1.2.2000\<close> has neither a two-digit day nor a two-digit month, and
  the construction succeeds (on either platform), storing \<open>01.02.2000\<close>.
\<close>

theorem Birthday_unpadded_counterexample:
  "Birthday True (lit ''1.2.2000'') = Inr (lit ''01.02.2000'') \<and>
   Birthday False (lit ''1.2.2000'') = Inr (lit ''01.02.2000'')"
  by (simp add: string_defs date_defs parse_defs)

text \<open>
  C8: where \<open>%Y\<close> is not padded (glibc), the birthday \<open>01.01.0999\<close> is constructed and
  stored as \<open>01.01.999\<close>, which \<open>as_date\<close> cannot parse: the conversion raises instead
  of giving the date back. By \<open>Birthday_roundtrip\<close> the round trip does give the stored
  string again for every year from 1000 on, and for every year where \<open>%Y\<close> is padded.
\<close>

theorem as_date_fails_below_year_1000:
  "Birthday False (lit ''01.01.0999'') = Inr (lit ''01.01.999'') \<and>
   as_date (lit ''01.01.999'')
     = Inl (ValueError (lit ''time data '' @ [39] @ lit ''01.01.999'' @ [39] @
         lit '' does not match format '' @ [39] @ lit ''%d.%m.%Y'' @ [39]))"
  by (simp add: string_defs date_defs parse_defs)


section \<open>The calendar\<close>

text \<open>
  The day after a date has the next ordinal, so the weekday moves with the days added:
  a date on a Saturday or Sunday is congratulated on the Monday after, any other on
  itself.
\<close>

lemma month_cases:
  "1 \<le> m \<Longrightarrow> m \<le> 12 \<Longrightarrow>
   m = 1 \<or> m = 2 \<or> m = 3 \<or> m = 4 \<or> m = 5 \<or> m = 6 \<or> m = 7 \<or> m = 8 \<or> m = 9 \<or>
   m = 10 \<or> m = 11 \<or> m = (12::nat)"
  by presburger

lemma days_in_month_ge: "1 \<le> m \<Longrightarrow> m \<le> 12 \<Longrightarrow> 28 \<le> days_in_month y m"
  by (drule (1) month_cases) (elim disjE; simp add: days_in_month_def DAYS_IN_MONTH_def)

lemma days_before_month_next:
  "1 \<le> m \<Longrightarrow> m < 12 \<Longrightarrow>
   days_before_month y (Suc m) = days_before_month y m + days_in_month y m"
proof -
  assume "1 \<le> m" "m < 12"
  then have "m = 1 \<or> m = 2 \<or> m = 3 \<or> m = 4 \<or> m = 5 \<or> m = 6 \<or> m = 7 \<or> m = 8 \<or> m = 9 \<or>
      m = 10 \<or> m = 11"
    by presburger
  then show ?thesis
    by (elim disjE)
      (simp_all add: days_before_month_def days_in_month_def DAYS_BEFORE_MONTH_def
        DAYS_IN_MONTH_def del: is_leap.simps)
qed

lemma days_before_year_next:
  assumes "1 \<le> y"
  shows "days_before_year (Suc y) = days_before_year y + (if is_leap y then 366 else 365)"
proof -
  obtain z where y: "y = Suc z"
    using assms by (cases y) auto
  define a b c where "a = z div 4" and "b = z div 100" and "c = z div 400"
  have le: "b \<le> a"
    unfolding a_def b_def by (rule div_le_mono2) simp_all
  have d1: "days_before_year (Suc z) = z * 365 + a - b + c"
    by (simp add: days_before_year_def a_def b_def c_def)
  have d2: "days_before_year (Suc (Suc z))
      = Suc z * 365 + Suc z div 4 - Suc z div 100 + Suc z div 400"
    by (simp add: days_before_year_def)
  have m1: "Suc z mod 100 = 0 \<longrightarrow> Suc z mod 4 = 0"
    by presburger
  have m2: "Suc z mod 400 = 0 \<longrightarrow> Suc z mod 100 = 0"
    by presburger
  have s4: "Suc z div 4 = (if Suc z mod 4 = 0 then Suc a else a)"
    unfolding a_def by (rule div_Suc)
  have s100: "Suc z div 100 = (if Suc z mod 100 = 0 then Suc b else b)"
    unfolding b_def by (rule div_Suc)
  have s400: "Suc z div 400 = (if Suc z mod 400 = 0 then Suc c else c)"
    unfolding c_def by (rule div_Suc)
  consider (plain) "Suc z mod 4 \<noteq> 0"
    | (leap) "Suc z mod 4 = 0" "Suc z mod 100 \<noteq> 0"
    | (century) "Suc z mod 100 = 0" "Suc z mod 400 \<noteq> 0"
    | (fourth) "Suc z mod 400 = 0"
    by blast
  then have "days_before_year (Suc (Suc z))
      = z * 365 + a - b + c + (if is_leap (Suc z) then 366 else 365)"
  proof cases
    case plain
    with m1 m2 have "Suc z mod 100 \<noteq> 0" "Suc z mod 400 \<noteq> 0"
      by (simp_all only: simp_thms)
    with plain have "Suc z div 4 = a" "Suc z div 100 = b" "Suc z div 400 = c" "\<not> is_leap (Suc z)"
      by (simp_all only: s4 s100 s400 is_leap.simps if_False simp_thms)
    with le show ?thesis
      by (simp only: d2 if_False) simp
  next
    case leap
    with m2 have "Suc z mod 400 \<noteq> 0"
      by (simp only: simp_thms)
    with leap have "Suc z div 4 = Suc a" "Suc z div 100 = b" "Suc z div 400 = c" "is_leap (Suc z)"
      by (simp_all only: s4 s100 s400 is_leap.simps if_False if_True simp_thms)
    with le show ?thesis
      by (simp only: d2 if_True) simp
  next
    case century
    with m1 have "Suc z mod 4 = 0"
      by (simp only: simp_thms)
    with century have "Suc z div 4 = Suc a" "Suc z div 100 = Suc b" "Suc z div 400 = c"
      "\<not> is_leap (Suc z)"
      by (simp_all only: s4 s100 s400 is_leap.simps if_False if_True simp_thms)
    with le show ?thesis
      by (simp only: d2 if_False) simp
  next
    case fourth
    with m1 m2 have "Suc z mod 100 = 0" "Suc z mod 4 = 0"
      by (simp_all only: simp_thms)
    with fourth have "Suc z div 4 = Suc a" "Suc z div 100 = Suc b" "Suc z div 400 = Suc c"
      "is_leap (Suc z)"
      by (simp_all only: s4 s100 s400 is_leap.simps if_False if_True simp_thms)
    with le show ?thesis
      by (simp only: d2 if_True) simp
  qed
  then show ?thesis
    by (simp only: y d1)
qed

lemma valid_next_day: "valid_date d \<Longrightarrow> valid_date (next_day d)"
  using days_in_month_ge [of "month d + 1" "year d"] days_in_month_ge [of 1 "year d + 1"]
  by (auto simp: valid_date_def next_day_def simp del: is_leap.simps)

lemma days_in_month_12: "days_in_month y 12 = 31"
  by (simp add: days_in_month_def DAYS_IN_MONTH_def)

lemma days_before_month_1: "days_before_month y (Suc 0) = 0"
  by (simp add: days_before_month_def DAYS_BEFORE_MONTH_def)

lemma days_before_month_12: "days_before_month y 12 = (if is_leap y then 335 else 334)"
  by (simp add: days_before_month_def DAYS_BEFORE_MONTH_def del: is_leap.simps)

lemma toordinal_next_day:
  assumes "valid_date d"
  shows "toordinal (next_day d) = toordinal d + 1"
proof -
  from assms have v: "1 \<le> year d" "1 \<le> month d" "month d \<le> 12" "1 \<le> day d"
    "day d \<le> days_in_month (year d) (month d)"
    by (simp_all add: valid_date_def)
  show ?thesis
  proof (cases "day d < days_in_month (year d) (month d)")
    case True
    then show ?thesis
      by (simp add: next_day_def toordinal_def)
  next
    case False
    with v(5) have last: "day d = days_in_month (year d) (month d)"
      by simp
    show ?thesis
    proof (cases "month d < 12")
      case True
      with False v(2) last show ?thesis
        by (simp add: next_day_def toordinal_def days_before_month_next)
    next
      case False
      with v(3) have m: "month d = 12"
        by simp
      with last v(1) show ?thesis
        by (simp add: next_day_def toordinal_def days_before_year_next days_in_month_12
            days_before_month_1 days_before_month_12 del: is_leap.simps)
    qed
  qed
qed

lemma toordinal_days_later:
  "valid_date d \<Longrightarrow> valid_date (days_later k d) \<and> toordinal (days_later k d) = toordinal d + k"
  by (induction k arbitrary: d) (simp_all add: valid_next_day toordinal_next_day)

lemma weekday_add_days:
  assumes "valid_date d" and "add_days d k = Inr c"
  shows "weekday c = (weekday d + k) mod 7"
proof -
  from assms(2) have "c = days_later k d"
    by (auto simp: add_days_def Let_def split: if_splits)
  with toordinal_days_later [OF assms(1), of k]
  have "toordinal c + 6 = (toordinal d + 6) + k"
    by simp
  then have "weekday c = ((toordinal d + 6) + k) mod 7"
    by (simp only: weekday_def)
  also have "\<dots> = ((toordinal d + 6) mod 7 + k) mod 7"
    by (simp only: mod_add_left_eq)
  finally show ?thesis
    by (simp only: weekday_def)
qed

lemma weekend_moves_to_Monday:
  assumes "valid_date d" and "congratulation_day d = Inr c"
  shows "weekday c < 5 \<and> (weekday d < 5 \<longrightarrow> c = d) \<and>
    (5 \<le> weekday d \<longrightarrow> strftime_A c = lit ''Monday'')"
proof -
  have w: "weekday d < 7"
    by (simp add: weekday_def)
  consider "weekday d = 5" | "weekday d = 6" | "weekday d < 5"
    using w by linarith
  then show ?thesis
  proof cases
    case 1
    with assms have "weekday c = 0"
      using weekday_add_days [of d 2 c] by (simp add: congratulation_day_def)
    with 1 show ?thesis
      by (simp add: strftime_A_def DAY_NAMES_def)
  next
    case 2
    with assms have "weekday c = 0"
      using weekday_add_days [of d 1 c] by (simp add: congratulation_day_def)
    with 2 show ?thesis
      by (simp add: strftime_A_def DAY_NAMES_def)
  next
    case 3
    with assms show ?thesis
      by (simp add: congratulation_day_def)
  qed
qed


section \<open>Upcoming birthdays\<close>

lemma listed_setdefault_append:
  "listed (setdefault_append k v result) w nm \<longleftrightarrow> listed result w nm \<or> (k = w \<and> v = nm)"
  by (induction result) (auto simp: listed_def split: if_splits)

lemma upcoming_step_listed:
  assumes "upcoming_step today end_day r result = Inr result'"
  shows "listed result' w nm \<longleftrightarrow> listed result w nm \<or> (name r = nm \<and> due today end_day r w)"
  using assms
  by (auto simp: upcoming_step_def due_def listed_setdefault_append
      split: option.splits sum.splits if_splits)

lemma upcoming_loop_listed:
  assumes "upcoming_loop today end_day rs result = Inr out"
  shows "listed out w nm \<longleftrightarrow>
    listed result w nm \<or> (\<exists>r\<in>set rs. name r = nm \<and> due today end_day r w)"
  using assms
proof (induction rs arbitrary: result)
  case Nil
  then show ?case by simp
next
  case (Cons r rs)
  then obtain result' where step: "upcoming_step today end_day r result = Inr result'"
    and rest: "upcoming_loop today end_day rs result' = Inr out"
    by (auto split: sum.splits)
  from Cons.IH [OF rest] upcoming_step_listed [OF step] show ?case
    by auto
qed

text \<open>
  Whenever \<open>get_upcoming_birthdays\<close> returns, its result lists a name under a weekday
  exactly when a record of the book with that name is due on that weekday, the window
  being the seven days from today.
\<close>

lemma get_upcoming_birthdays_listed:
  assumes "get_upcoming_birthdays today book = Inr out"
  shows "\<exists>end_day. add_days today 7 = Inr end_day \<and>
    (listed out w nm \<longleftrightarrow> (\<exists>r\<in>set (map snd book). name r = nm \<and> due today end_day r w))"
proof -
  from assms obtain end_day where e: "add_days today 7 = Inr end_day"
    and l: "upcoming_loop today end_day (map snd book) [] = Inr out"
    by (auto simp: get_upcoming_birthdays_def split: sum.splits)
  from upcoming_loop_listed [OF l] have
    "listed out w nm \<longleftrightarrow> (\<exists>r\<in>set (map snd book). name r = nm \<and> due today end_day r w)"
    by (simp add: listed_def)
  with e show ?thesis by blast
qed

text \<open>
  C1: on 2025-02-24 bob, born on 26 February, is listed under Wednesday when he is alone
  in the book. With alice, born on 29 February, also in the book, building her
  birthday in 2025 raises \<open>ValueError\<close> and there is no result at all, so bob is not
  listed although his birthday is in the window.
\<close>

theorem get_upcoming_birthdays_leap_day:
  "get_upcoming_birthdays (Date 2025 2 24) [(lit ''bob'', bob_record)]
     = Inr [(lit ''Wednesday'', [lit ''bob''])] \<and>
   get_upcoming_birthdays (Date 2025 2 24) [(lit ''alice'', alice_record), (lit ''bob'', bob_record)]
     = Inl (ValueError (lit ''day is out of range for month''))"
  by (simp add: example_defs string_defs date_defs parse_defs book_defs)


lemma date_new_valid: "date_new y m d = Inr dt \<Longrightarrow> valid_date dt"
  by (auto simp: date_new_Inr_iff valid_date_def)

lemma occurrence_valid: "occurrence today bday = Inr d \<Longrightarrow> valid_date d"
  by (auto simp: occurrence_def split: sum.splits if_splits dest: date_new_valid)

lemma due_on_working_day:
  assumes "due today end_day r w"
  shows "w \<in> set (take 5 DAY_NAMES)"
proof -
  from assms obtain d c where d: "valid_date d" and c: "congratulation_day d = Inr c"
    and w: "w = strftime_A c"
    by (auto simp: due_def split: option.splits sum.splits dest: occurrence_valid)
  from weekend_moves_to_Monday [OF d c] have "weekday c < 5"
    by simp
  then have "weekday c = 0 \<or> weekday c = 1 \<or> weekday c = 2 \<or> weekday c = 3 \<or> weekday c = 4"
    by linarith
  then show ?thesis
    unfolding w strftime_A_def by (elim disjE) (simp_all add: DAY_NAMES_def)
qed


end
